theory Spec2Isabelle
  imports Complex_Main
begin

section \<open>Common: Python values the two modules share\<close>

text \<open>
  Every exception the modelled source can raise is a value; a function that can raise
  returns \<open>error + 'a\<close> with \<open>Inl\<close> for the exception. \<open>DebuggerPrompt\<close> is not an
  exception: it is the state of a run that stands at the \<open>ipdb\<close> prompt with nobody
  there to resume it.
\<close>

datatype error =
    IndexError
  | KeyError
  | AssertionError
  | AttributeError
  | TypeError
  | ZeroDivisionError
  | RuntimeError
  | FileNotFoundError
  | OSError
  | UnpicklingError
  | JSONDecodeError
  | DebuggerPrompt

text \<open>Sequencing of two steps, the second of which runs only when the first returned.\<close>

definition and_then :: "error + 'a \<Rightarrow> ('a \<Rightarrow> error + 'b) \<Rightarrow> error + 'b" where
  "and_then r f = (case r of Inl e \<Rightarrow> Inl e | Inr x \<Rightarrow> f x)"

text \<open>
  The Python slice \<open>xs[:k]\<close>: a negative bound counts from the end, so \<open>xs[:-2]\<close> drops
  the last two elements.
\<close>

definition slice_to :: "'a list \<Rightarrow> int \<Rightarrow> 'a list" where
  "slice_to xs k = (if k < 0 then take (nat (int (length xs) + k)) xs else take (nat k) xs)"

section \<open>Text\_Generation/GPT2\_TitleGen/data\_process.py\<close>

subsection \<open>The tokenizer, samples and feature records\<close>

text \<open>
  The tokenizer belongs to the pretrained-model library, not to the repository: it is a
  parameter. \<open>convert_tokens_to_ids\<close> is given for one token; on a list of tokens the
  library maps it over the list.
\<close>

record tokenizer =
  tokenize :: "string \<Rightarrow> string list"
  convert_tokens_to_ids :: "string \<Rightarrow> int"
  cls_token_id :: int
  sep_token_id :: int

text \<open>A raw JSON record is a dictionary from field names to strings.\<close>

type_synonym sample = "string \<rightharpoonup> string"

text \<open>The dictionary \<open>{'input_ids': ..., 'token_type_ids': ...}\<close> that \<open>load_data\<close> builds.\<close>

record feature =
  input_ids :: "int list"
  token_type_ids :: "int list"

record GPT2NewsTitleDataSet =
  ds_tokenizer :: tokenizer
  content_id :: int
  title_id :: int
  space_id :: int
  max_len :: int
  title_max_len :: int
  data_set :: "feature list"

text \<open>\<open>title.replace(" ", "[Space]")\<close>\<close>

definition replace_space :: "string \<Rightarrow> string" where
  "replace_space s = concat (map (\<lambda>c. if c = CHR '' '' then ''[Space]'' else [c]) s)"

subsection \<open>convert\_feature\<close>

definition convert_feature :: "GPT2NewsTitleDataSet \<Rightarrow> sample \<Rightarrow> error + (int list \<times> int list)" where
  "convert_feature self smp =
    (case smp ''content'' of
       None \<Rightarrow> Inl KeyError
     | Some content \<Rightarrow>
        (case smp ''title'' of
           None \<Rightarrow> Inl KeyError
         | Some title \<Rightarrow>
            (let tok = ds_tokenizer self;
                 content_tokens = tokenize tok content;
                 title_tokens = tokenize tok (replace_space title);
                 title_tokens =
                   (if int (length title_tokens) > title_max_len self
                    then slice_to title_tokens (title_max_len self) else title_tokens);
                 content_tokens =
                   (if int (length content_tokens) > max_len self - int (length title_tokens) - 3
                    then slice_to content_tokens (max_len self - int (length title_tokens) - 3)
                    else content_tokens);
                 ids = [cls_token_id tok] @ map (convert_tokens_to_ids tok) content_tokens
                       @ [sep_token_id tok] @ map (convert_tokens_to_ids tok) title_tokens
                       @ [sep_token_id tok];
                 tts = [content_id self] @ replicate (length content_tokens) (content_id self)
                       @ [content_id self] @ replicate (length title_tokens) (title_id self)
                       @ [title_id self]
             in if length ids \<noteq> length tts then Inl AssertionError
                else if \<not> int (length ids) \<le> max_len self then Inl AssertionError
                else Inr (ids, tts))))"

subsection \<open>The file system, load\_data and the constructor\<close>

text \<open>
  A file holds either the raw JSON corpus or what \<open>torch.save\<close> wrote: the dictionary
  \<open>{"data_set": ...}\<close>. The world is the files, the paths that can be written, and a log
  of the file operations done so far; tokenization is reached only from \<open>load_data\<close>,
  after the raw file was opened, so a run that logs no \<open>ReadRaw\<close> tokenized nothing.
  The progress messages printed by the constructor are left out.
\<close>

datatype file_content = Json "sample list" | Pickle "feature list"

datatype event = ReadRaw string | LoadCache string | SaveCache string

record world =
  files :: "string \<rightharpoonup> file_content"
  can_write :: "string \<Rightarrow> bool"
  log :: "event list"

fun convert_all :: "GPT2NewsTitleDataSet \<Rightarrow> sample list \<Rightarrow> feature list \<Rightarrow> error + feature list" where
  "convert_all self [] acc = Inr acc"
| "convert_all self (s # ss) acc =
     (case convert_feature self s of
        Inl e \<Rightarrow> Inl e
      | Inr (ids, tts) \<Rightarrow> convert_all self ss (acc @ [\<lparr>input_ids = ids, token_type_ids = tts\<rparr>]))"

definition load_data :: "GPT2NewsTitleDataSet \<Rightarrow> string option \<Rightarrow> world \<Rightarrow> error + (feature list \<times> world)" where
  "load_data self path_file w =
    (case path_file of
       None \<Rightarrow> Inl TypeError
     | Some p \<Rightarrow>
        (case files w p of
           None \<Rightarrow> Inl FileNotFoundError
         | Some (Pickle _) \<Rightarrow> Inl JSONDecodeError
         | Some (Json data) \<Rightarrow>
            (case convert_all self data [] of
               Inl e \<Rightarrow> Inl e
             | Inr fs \<Rightarrow> Inr (fs, w\<lparr>log := log w @ [ReadRaw p]\<rparr>))))"

text \<open>\<open>str(n)\<close> for an integer, and \<open>os.path.join\<close> of a directory and a relative name.\<close>

fun digits :: "nat \<Rightarrow> string" where
  "digits n = (if n < 10 then [''0123456789'' ! n] else digits (n div 10) @ [''0123456789'' ! (n mod 10)])"

definition str_int :: "int \<Rightarrow> string" where
  "str_int i = (if i < 0 then CHR ''-'' # digits (nat (- i)) else digits (nat i))"

definition path_join :: "string \<Rightarrow> string \<Rightarrow> string" where
  "path_join dir name =
     (if name \<noteq> [] \<and> hd name = CHR ''/'' then name
      else if dir = [] \<or> last dir = CHR ''/'' then dir @ name
      else dir @ ''/'' @ name)"

definition cached_feature_file :: "string \<Rightarrow> string \<Rightarrow> int \<Rightarrow> string" where
  "cached_feature_file data_dir data_set_name mx =
     path_join data_dir (''cached_'' @ data_set_name @ ''_'' @ str_int mx)"

definition torch_load :: "string \<Rightarrow> world \<Rightarrow> error + (feature list \<times> world)" where
  "torch_load p w =
    (case files w p of
       None \<Rightarrow> Inl FileNotFoundError
     | Some (Json _) \<Rightarrow> Inl UnpicklingError
     | Some (Pickle fs) \<Rightarrow> Inr (fs, w\<lparr>log := log w @ [LoadCache p]\<rparr>))"

definition torch_save :: "feature list \<Rightarrow> string \<Rightarrow> world \<Rightarrow> error + world" where
  "torch_save fs p w =
    (if can_write w p
     then Inr (w\<lparr>files := (files w)(p \<mapsto> Pickle fs), log := log w @ [SaveCache p]\<rparr>)
     else Inl OSError)"

definition GPT2NewsTitleDataSet_init ::
  "tokenizer \<Rightarrow> int \<Rightarrow> int \<Rightarrow> string \<Rightarrow> string \<Rightarrow> string option \<Rightarrow> bool \<Rightarrow> world
     \<Rightarrow> error + (GPT2NewsTitleDataSet \<times> world)" where
  "GPT2NewsTitleDataSet_init tok mx tmx data_dir data_set_name path_file is_overwrite w =
    (let self = \<lparr>ds_tokenizer = tok,
                 content_id = convert_tokens_to_ids tok ''[Content]'',
                 title_id = convert_tokens_to_ids tok ''[Title]'',
                 space_id = convert_tokens_to_ids tok ''[Space]'',
                 max_len = mx, title_max_len = tmx, data_set = []\<rparr>;
         cached = cached_feature_file data_dir data_set_name mx
     in if files w cached \<noteq> None \<and> \<not> is_overwrite
        then (case torch_load cached w of
                Inl e \<Rightarrow> Inl e
              | Inr (fs, w1) \<Rightarrow> Inr (self\<lparr>data_set := fs\<rparr>, w1))
        else (case load_data self path_file w of
                Inl e \<Rightarrow> Inl e
              | Inr (fs, w1) \<Rightarrow>
                 (case torch_save fs cached w1 of
                    Inl e \<Rightarrow> Inl e
                  | Inr w2 \<Rightarrow> Inr (self\<lparr>data_set := fs\<rparr>, w2))))"

subsection \<open>collate\_func\<close>

text \<open>
  \<open>torch.nn.utils.rnn.pad_sequence(xs, batch_first=True, padding_value=v)\<close> of the
  framework: a tensor with one row per sequence, as long as the longest sequence, each
  sequence followed by \<open>v\<close>. It is only called on a non-empty list here. Token ids
  are vocabulary indices and are taken to fit the 64-bit integers of \<open>torch.long\<close>.
\<close>

definition pad_sequence :: "int list list \<Rightarrow> int \<Rightarrow> int list list" where
  "pad_sequence xs v =
     (let m = fold max (map length xs) 0 in map (\<lambda>x. x @ replicate (m - length x) v) xs)"

definition collate_func :: "feature list \<Rightarrow> error + (string \<rightharpoonup> int list list)" where
  "collate_func batch_data =
    (if length batch_data = 0 then Inr Map.empty
     else Inr [''input_ids'' \<mapsto> pad_sequence (map input_ids batch_data) 0,
               ''token_type_ids'' \<mapsto> pad_sequence (map token_type_ids batch_data) 0])"


text \<open>The invariant of a feature record, and the log entries that open the raw corpus.\<close>

definition feature_within :: "int \<Rightarrow> feature \<Rightarrow> bool" where
  "feature_within mx f =
     (length (input_ids f) = length (token_type_ids f) \<and> int (length (input_ids f)) \<le> mx)"

definition is_ReadRaw :: "event \<Rightarrow> bool" where
  "is_ReadRaw e = (case e of ReadRaw _ \<Rightarrow> True | _ \<Rightarrow> False)"

subsection \<open>Example inputs\<close>

text \<open>
  A tokenizer that makes one token of every character, a data set object over it, and a
  world with a two-record corpus and no cache yet.
\<close>

definition ex_tokenizer :: tokenizer where
  "ex_tokenizer =
     \<lparr>tokenize = map (\<lambda>c. [c]),
      convert_tokens_to_ids =
        (\<lambda>t. if t = ''[Content]'' then 1 else if t = ''[Title]'' then 2
              else if t = ''[Space]'' then 3 else 1000 + int (length t)),
      cls_token_id = 101, sep_token_id = 102\<rparr>"

definition ex_dataset :: "int \<Rightarrow> int \<Rightarrow> GPT2NewsTitleDataSet" where
  "ex_dataset mx tmx =
     \<lparr>ds_tokenizer = ex_tokenizer, content_id = 1, title_id = 2, space_id = 3,
      max_len = mx, title_max_len = tmx, data_set = []\<rparr>"

definition ex_sample :: sample where
  "ex_sample = [''content'' \<mapsto> ''abcdefghij'', ''title'' \<mapsto> ''xyz'']"

definition ex_world :: world where
  "ex_world =
     \<lparr>files = [''raw.json'' \<mapsto> Json [ex_sample, [''content'' \<mapsto> ''ab'', ''title'' \<mapsto> ''c'']]],
      can_write = (\<lambda>p. True), log = []\<rparr>"

definition ex_batch :: "feature list" where
  "ex_batch = [\<lparr>input_ids = [101, 7, 102, 8, 102], token_type_ids = [1, 1, 1, 2, 2]\<rparr>,
               \<lparr>input_ids = [101, 102, 102], token_type_ids = [1, 1, 2]\<rparr>]"

section \<open>NMT/Transformers\_NMT/transformer/decoder.py\<close>

subsection \<open>Tensors, the framework and the absent modules\<close>

text \<open>
  A tensor is the nested list of its entries: token tensors are batch x time, activations
  are batch x time x feature, attention masks are batch x query x key. Floating-point
  entries are real numbers; the claims settled here are about which operations are
  applied and to what, not about rounding. The shape checks of the framework are modelled
  where two operands meet (addition, matrix product, embedding lookup).
\<close>

type_synonym vec = "real list"
type_synonym matrix = "real list list"
type_synonym tensor3 = "real list list list"
type_synonym tokens = "int list list"
type_synonym mask3 = "bool list list list"

text \<open>
  \<open>MultiHeadAttention.forward(q, k, v, mask)\<close> returns the output and the attention
  weights. The attention and feed-forward modules are in \<open>attention.py\<close> and
  \<open>module.py\<close>, the configuration in \<open>config.py\<close>; none of them is among the source
  files, so they are parameters, as are the random initialisers and the dropout of the
  framework. The first argument of an initialiser or of a module constructor is the
  position in the sequence of random draws.
\<close>

type_synonym attention = "tensor3 \<Rightarrow> tensor3 \<Rightarrow> tensor3 \<Rightarrow> mask3 option \<Rightarrow> tensor3 \<times> tensor3"

record framework =
  normal_init :: "nat \<Rightarrow> nat \<Rightarrow> real"
  xavier_normal :: "nat \<Rightarrow> nat \<Rightarrow> real"
  Dropout :: "real \<Rightarrow> tensor3 \<Rightarrow> tensor3"
  PositionalEncoding :: "nat \<Rightarrow> nat \<Rightarrow> nat \<Rightarrow> matrix"
  MultiHeadAttention :: "nat \<Rightarrow> nat \<Rightarrow> nat \<Rightarrow> nat \<Rightarrow> nat \<Rightarrow> real \<Rightarrow> attention"
  PositionwiseFeedForward :: "nat \<Rightarrow> nat \<Rightarrow> nat \<Rightarrow> real \<Rightarrow> tensor3 \<Rightarrow> tensor3"

record Config =
  IGNORE_ID :: int

record DecoderLayer =
  slf_attn :: attention
  enc_attn :: attention
  pos_ffn :: "tensor3 \<Rightarrow> tensor3"

subsection \<open>Objects: attributes by name, parameters by reference\<close>

text \<open>
  A \<open>Decoder\<close> is the dictionary of the attributes its constructor assigned; reading an
  attribute that was never assigned raises \<open>AttributeError\<close>. A module that owns a
  weight holds the address of the weight in the parameter store, so that two modules can
  hold the same weight.
\<close>

datatype attr =
    IntV int
  | FloatV real
  | BoolV bool
  | Embedding nat
  | Linear nat
  | PosEnc "nat \<Rightarrow> matrix"
  | DropoutM "tensor3 \<Rightarrow> tensor3"
  | ModuleList "DecoderLayer list"

type_synonym obj = "string \<rightharpoonup> attr"
type_synonym store = "nat \<rightharpoonup> matrix"

definition getattr :: "obj \<Rightarrow> string \<Rightarrow> error + attr" where
  "getattr self name = (case self name of None \<Rightarrow> Inl AttributeError | Some v \<Rightarrow> Inr v)"

definition get_int :: "obj \<Rightarrow> string \<Rightarrow> error + int" where
  "get_int self name =
     and_then (getattr self name) (\<lambda>v. case v of IntV i \<Rightarrow> Inr i | _ \<Rightarrow> Inl TypeError)"

definition get_float :: "obj \<Rightarrow> string \<Rightarrow> error + real" where
  "get_float self name =
     and_then (getattr self name) (\<lambda>v. case v of FloatV x \<Rightarrow> Inr x | _ \<Rightarrow> Inl TypeError)"

definition get_layers :: "obj \<Rightarrow> string \<Rightarrow> error + DecoderLayer list" where
  "get_layers self name =
     and_then (getattr self name) (\<lambda>v. case v of ModuleList ls \<Rightarrow> Inr ls | _ \<Rightarrow> Inl TypeError)"

text \<open>\<open>m.weight\<close> of a module, and the in-place update \<open>m.weight.data = w\<close>.\<close>

definition module_weight :: "store \<Rightarrow> attr \<Rightarrow> error + matrix" where
  "module_weight st m =
     (case m of
        Embedding a \<Rightarrow> (case st a of None \<Rightarrow> Inl RuntimeError | Some w \<Rightarrow> Inr w)
      | Linear a \<Rightarrow> (case st a of None \<Rightarrow> Inl RuntimeError | Some w \<Rightarrow> Inr w)
      | _ \<Rightarrow> Inl AttributeError)"

definition set_weight :: "attr \<Rightarrow> matrix \<Rightarrow> store \<Rightarrow> error + store" where
  "set_weight m w st =
     (case m of
        Embedding a \<Rightarrow> Inr (st(a \<mapsto> w))
      | Linear a \<Rightarrow> Inr (st(a \<mapsto> w))
      | _ \<Rightarrow> Inl AttributeError)"

subsection \<open>Decoder.\_\_init\_\_ and DecoderLayer.\_\_init\_\_\<close>

record Decoder_args =
  sos_id :: int
  eos_id :: int
  n_tgt_vocab :: nat
  d_word_vec :: nat
  n_layers :: nat
  n_head :: nat
  d_k :: nat
  d_v :: nat
  d_model :: nat
  d_inner :: nat
  dropout :: real
  tgt_emb_prj_weight_sharing :: bool
  pe_maxlen :: nat

definition DecoderLayer_init ::
  "framework \<Rightarrow> nat \<Rightarrow> nat \<Rightarrow> nat \<Rightarrow> nat \<Rightarrow> nat \<Rightarrow> nat \<Rightarrow> real \<Rightarrow> DecoderLayer" where
  "DecoderLayer_init fw k dm di nh dk dv p =
     \<lparr>slf_attn = MultiHeadAttention fw (2 * k) nh dm dk dv p,
      enc_attn = MultiHeadAttention fw (2 * k + 1) nh dm dk dv p,
      pos_ffn = PositionwiseFeedForward fw k dm di p\<rparr>"

text \<open>A freshly initialised weight of the given shape.\<close>

definition new_weight :: "(nat \<Rightarrow> nat \<Rightarrow> real) \<Rightarrow> nat \<Rightarrow> nat \<Rightarrow> matrix" where
  "new_weight init rows cols = map (\<lambda>i. map (init i) [0..<cols]) [0..<rows]"

text \<open>
  The constructor, assignment by assignment. The embedding weight is allocated at
  address 0 and the weight of the output projection at address 1. \<open>self.dropout\<close> is
  assigned twice, first the rate and then the module. With weight sharing the projection
  is made to hold the embedding's weight, and \<open>d_model ** -0.5\<close> raises for \<open>d_model = 0\<close>.
\<close>

definition Decoder_init :: "framework \<Rightarrow> Decoder_args \<Rightarrow> error + (obj \<times> store)" where
  "Decoder_init fw a =
    (let self = Map.empty
           (''sos_id'' \<mapsto> IntV (sos_id a),
            ''eos_id'' \<mapsto> IntV (eos_id a),
            ''n_tgt_vocab'' \<mapsto> IntV (int (n_tgt_vocab a)),
            ''d_word_vec'' \<mapsto> IntV (int (d_word_vec a)),
            ''n_layers'' \<mapsto> IntV (int (n_layers a)),
            ''n_head'' \<mapsto> IntV (int (n_head a)),
            ''d_k'' \<mapsto> IntV (int (d_k a)),
            ''d_v'' \<mapsto> IntV (int (d_v a)),
            ''d_model'' \<mapsto> IntV (int (d_model a)),
            ''d_inner'' \<mapsto> IntV (int (d_inner a)),
            ''dropout'' \<mapsto> FloatV (dropout a),
            ''tgt_emb_prj_weight_sharing'' \<mapsto> BoolV (tgt_emb_prj_weight_sharing a),
            ''pe_maxlen'' \<mapsto> IntV (int (pe_maxlen a)),
            ''tgt_word_emb'' \<mapsto> Embedding 0,
            ''pos_emb'' \<mapsto> PosEnc (PositionalEncoding fw (d_model a) (pe_maxlen a)),
            ''dropout'' \<mapsto> DropoutM (Dropout fw (dropout a)),
            ''layer_stack'' \<mapsto> ModuleList
               (map (\<lambda>k. DecoderLayer_init fw k (d_model a) (d_inner a) (n_head a) (d_k a) (d_v a)
                            (dropout a)) [0..<n_layers a]),
            ''tgt_word_prj'' \<mapsto> Linear 1);
         st = Map.empty
           (0 \<mapsto> new_weight (normal_init fw) (n_tgt_vocab a) (d_word_vec a),
            1 \<mapsto> new_weight (xavier_normal fw) (n_tgt_vocab a) (d_model a))
     in if tgt_emb_prj_weight_sharing a
        then and_then (getattr self ''tgt_word_emb'') (\<lambda>emb.
               case emb of
                 Embedding w \<Rightarrow>
                   if d_model a = 0 then Inl ZeroDivisionError
                   else Inr (self(''tgt_word_prj'' \<mapsto> Linear w,
                                  ''x_logit_scale'' \<mapsto> FloatV (real (d_model a) powr (- 1 / 2))), st)
               | _ \<Rightarrow> Inl AttributeError)
        else Inr (self(''x_logit_scale'' \<mapsto> FloatV 1), st))"

subsection \<open>Helpers of utils.py\<close>

text \<open>
  Modelled from the spec: \<open>pad_list\<close> of the absent \<open>utils.py\<close>; the two derived
  sequences are right-padded to the batch's maximum length with the given pad value.
\<close>

definition pad_list :: "int list list \<Rightarrow> int \<Rightarrow> tokens" where
  "pad_list xs pad_value =
     (let m = fold max (map length xs) 0 in map (\<lambda>x. x @ replicate (m - length x) pad_value) xs)"

text \<open>
  Modelled from the spec: \<open>get_non_pad_mask\<close> of the absent \<open>utils.py\<close>; it zeroes out
  any position of the decoder input that equals the pad id. The trailing axis of length
  one of the batch x time x 1 tensor is not represented.
\<close>

definition get_non_pad_mask :: "tokens \<Rightarrow> int \<Rightarrow> matrix" where
  "get_non_pad_mask padded_input pad_idx = map (map (\<lambda>t. if t \<noteq> pad_idx then 1 else 0)) padded_input"

text \<open>
  Modelled from the spec: \<open>get_attn_pad_mask\<close> of the absent \<open>utils.py\<close>; the
  cross-attention mask is derived purely from the valid encoder lengths and broadcast
  across all decoder time steps.
\<close>

definition get_attn_pad_mask :: "tensor3 \<Rightarrow> int list \<Rightarrow> nat \<Rightarrow> mask3" where
  "get_attn_pad_mask padded_input input_lengths expand_length =
     map2 (\<lambda>x n. replicate expand_length (map (\<lambda>j. n \<le> int j) [0..<length x]))
          padded_input input_lengths"

text \<open>
  Modelled from the spec: \<open>get_subsequent_mask\<close> of the absent \<open>utils.py\<close>; the causal
  mask is the strictly upper-triangular boolean mask that keeps position \<open>i\<close> from
  attending to a position \<open>j > i\<close>.
\<close>

definition get_subsequent_mask :: "tokens \<Rightarrow> mask3" where
  "get_subsequent_mask seq =
     map (\<lambda>y. map (\<lambda>i. map (\<lambda>j. i < j) [0..<length y]) [0..<length y]) seq"

text \<open>
  Modelled from the spec: \<open>get_attn_key_pad_mask\<close> of the absent \<open>utils.py\<close>; the
  key-padding mask keeps every position from attending to the key positions that are
  pad tokens.
\<close>

definition get_attn_key_pad_mask :: "tokens \<Rightarrow> tokens \<Rightarrow> int \<Rightarrow> mask3" where
  "get_attn_key_pad_mask seq_k seq_q pad_idx =
     map2 (\<lambda>k q. replicate (length q) (map (\<lambda>t. t = pad_idx) k)) seq_k seq_q"

subsection \<open>Tensor operations of the framework\<close>

primrec sequence_err :: "(error + 'a) list \<Rightarrow> error + 'a list" where
  "sequence_err [] = Inr []"
| "sequence_err (r # rs) =
     and_then r (\<lambda>x. and_then (sequence_err rs) (\<lambda>xs. Inr (x # xs)))"

primrec fold_err :: "('a \<Rightarrow> 's \<Rightarrow> error + 's) \<Rightarrow> 'a list \<Rightarrow> 's \<Rightarrow> error + 's" where
  "fold_err f [] s = Inr s"
| "fold_err f (x # xs) s = and_then (f x s) (fold_err f xs)"

text \<open>\<open>x.size()\<close> of a batch x time tensor and \<open>x.size(1)\<close>.\<close>

definition tensor_size :: "'a list list \<Rightarrow> nat \<times> nat" where
  "tensor_size x = (length x, case x of [] \<Rightarrow> 0 | r # _ \<Rightarrow> length r)"

definition size1 :: "'a list list \<Rightarrow> nat" where
  "size1 x = snd (tensor_size x)"

text \<open>The embedding lookup: an index outside the table raises.\<close>

definition lookup_row :: "matrix \<Rightarrow> int \<Rightarrow> error + vec" where
  "lookup_row w i = (if 0 \<le> i \<and> nat i < length w then Inr (w ! nat i) else Inl IndexError)"

definition embedding :: "matrix \<Rightarrow> tokens \<Rightarrow> error + tensor3" where
  "embedding w ys = sequence_err (map (\<lambda>y. sequence_err (map (lookup_row w) y)) ys)"

definition tensor_scale :: "real \<Rightarrow> tensor3 \<Rightarrow> tensor3" where
  "tensor_scale s x = map (map (map (\<lambda>v. v * s))) x"

text \<open>Adding a time x feature tensor to every element of a batch.\<close>

definition add_pos :: "tensor3 \<Rightarrow> matrix \<Rightarrow> error + tensor3" where
  "add_pos x p =
     (if list_all (\<lambda>rows. map length rows = map length p) x
      then Inr (map (\<lambda>rows. map2 (map2 (+)) rows p) x)
      else Inl RuntimeError)"

text \<open>A linear layer without bias, on one vector and on a batch x time x feature tensor.\<close>

definition linear_vec :: "matrix \<Rightarrow> vec \<Rightarrow> error + vec" where
  "linear_vec w v =
     (if list_all (\<lambda>r. length r = length v) w
      then Inr (map (\<lambda>r. sum_list (map2 (*) v r)) w)
      else Inl RuntimeError)"

definition linear :: "matrix \<Rightarrow> tensor3 \<Rightarrow> error + tensor3" where
  "linear w x = sequence_err (map (\<lambda>rows. sequence_err (map (linear_vec w) rows)) x)"

text \<open>\<open>x *= non_pad_mask\<close>: \<open>None\<close> cannot be multiplied.\<close>

definition imul_mask :: "tensor3 \<Rightarrow> matrix option \<Rightarrow> error + tensor3" where
  "imul_mask x non_pad_mask =
     (case non_pad_mask of
        None \<Rightarrow> Inl TypeError
      | Some m \<Rightarrow> Inr (map2 (\<lambda>rows ms. map2 (\<lambda>v k. map (\<lambda>e. e * k) v) rows ms) x m))"

text \<open>Calling the value of an attribute as the module it is expected to be.\<close>

definition call_embedding :: "store \<Rightarrow> attr \<Rightarrow> tokens \<Rightarrow> error + tensor3" where
  "call_embedding st m ys =
     (case m of Embedding _ \<Rightarrow> and_then (module_weight st m) (\<lambda>w. embedding w ys)
              | _ \<Rightarrow> Inl TypeError)"

definition call_linear :: "store \<Rightarrow> attr \<Rightarrow> tensor3 \<Rightarrow> error + tensor3" where
  "call_linear st m x =
     (case m of Linear _ \<Rightarrow> and_then (module_weight st m) (\<lambda>w. linear w x)
              | _ \<Rightarrow> Inl TypeError)"

definition call_pos :: "attr \<Rightarrow> tokens \<Rightarrow> error + matrix" where
  "call_pos m ys = (case m of PosEnc f \<Rightarrow> Inr (f (size1 ys)) | _ \<Rightarrow> Inl TypeError)"

definition call_dropout :: "attr \<Rightarrow> tensor3 \<Rightarrow> error + tensor3" where
  "call_dropout m x = (case m of DropoutM f \<Rightarrow> Inr (f x) | _ \<Rightarrow> Inl TypeError)"

subsection \<open>The debugger\<close>

text \<open>
  \<open>ipdb.set_trace()\<close> stops the run at a prompt. The environment is the number of
  times somebody is there to resume it: with none left the run stays at the prompt.
  (The package \<open>ipdb\<close> is taken to be installed.)
\<close>

definition set_trace :: "nat \<Rightarrow> error + nat" where
  "set_trace resumes = (case resumes of 0 \<Rightarrow> Inl DebuggerPrompt | Suc n \<Rightarrow> Inr n)"

subsection \<open>DecoderLayer.forward\<close>

definition DecoderLayer_forward ::
  "DecoderLayer \<Rightarrow> nat \<Rightarrow> tensor3 \<Rightarrow> tensor3 \<Rightarrow> matrix option \<Rightarrow> mask3 option \<Rightarrow> mask3 option
     \<Rightarrow> error + ((tensor3 \<times> tensor3 \<times> tensor3) \<times> nat)" where
  "DecoderLayer_forward self resumes dec_input enc_output non_pad_mask slf_attn_mask dec_enc_attn_mask =
     and_then (set_trace resumes) (\<lambda>resumes.
       case slf_attn self dec_input dec_input dec_input slf_attn_mask of
         (dec_output, dec_slf_attn) \<Rightarrow>
       and_then (imul_mask dec_output non_pad_mask) (\<lambda>dec_output.
       case enc_attn self dec_output enc_output enc_output dec_enc_attn_mask of
         (dec_output, dec_enc_attn) \<Rightarrow>
       and_then (imul_mask dec_output non_pad_mask) (\<lambda>dec_output.
       and_then (imul_mask (pos_ffn self dec_output) non_pad_mask) (\<lambda>dec_output.
       Inr ((dec_output, dec_slf_attn, dec_enc_attn), resumes)))))"

subsection \<open>Decoder.preprocess and Decoder.forward\<close>

definition preprocess :: "Config \<Rightarrow> obj \<Rightarrow> tokens \<Rightarrow> error + (tokens \<times> tokens)" where
  "preprocess cfg self padded_input =
     (let ys = map (filter (\<lambda>t. t \<noteq> IGNORE_ID cfg)) padded_input
      in case ys of
           [] \<Rightarrow> Inl IndexError
         | _ # _ \<Rightarrow>
           and_then (get_int self ''eos_id'') (\<lambda>eos.
           and_then (get_int self ''sos_id'') (\<lambda>sos.
             let ys_in = map (\<lambda>y. [sos] @ y) ys;
                 ys_out = map (\<lambda>y. y @ [eos]) ys;
                 ys_in_pad = pad_list ys_in eos;
                 ys_out_pad = pad_list ys_out (IGNORE_ID cfg)
             in if tensor_size ys_in_pad \<noteq> tensor_size ys_out_pad then Inl AssertionError
                else Inr (ys_in_pad, ys_out_pad))))"

text \<open>
  Line 132: the two masks are added as integers and the sum is compared with zero.
\<close>

definition mask_add :: "mask3 \<Rightarrow> mask3 \<Rightarrow> nat list list list" where
  "mask_add a b = map2 (map2 (map2 (\<lambda>p q. of_bool p + of_bool q))) a b"

definition gt0 :: "nat list list list \<Rightarrow> mask3" where
  "gt0 x = map (map (map (\<lambda>n. 0 < n))) x"

definition slf_attn_mask_of :: "tokens \<Rightarrow> int \<Rightarrow> mask3" where
  "slf_attn_mask_of ys_in_pad eos =
     (let slf_attn_mask_subseq = get_subsequent_mask ys_in_pad;
          slf_attn_mask_keypad = get_attn_key_pad_mask ys_in_pad ys_in_pad eos
      in gt0 (mask_add slf_attn_mask_keypad slf_attn_mask_subseq))"

text \<open>The loop over \<open>self.layer_stack\<close>, collecting the attention weights when asked to.\<close>

fun run_layers ::
  "DecoderLayer list \<Rightarrow> nat \<Rightarrow> tensor3 \<Rightarrow> tensor3 \<Rightarrow> matrix option \<Rightarrow> mask3 option \<Rightarrow> mask3 option
     \<Rightarrow> bool \<Rightarrow> tensor3 list \<Rightarrow> tensor3 list
     \<Rightarrow> error + ((tensor3 \<times> tensor3 list \<times> tensor3 list) \<times> nat)" where
  "run_layers [] resumes dec_output enc npm sm em ra sl el = Inr ((dec_output, sl, el), resumes)"
| "run_layers (dec_layer # rest) resumes dec_output enc npm sm em ra sl el =
     and_then (DecoderLayer_forward dec_layer resumes dec_output enc npm sm em)
       (\<lambda>((dec_output, dec_slf_attn, dec_enc_attn), resumes).
          run_layers rest resumes dec_output enc npm sm em ra
            (if ra then sl @ [dec_slf_attn] else sl) (if ra then el @ [dec_enc_attn] else el))"

datatype forward_result =
    PredGold tensor3 tokens
  | PredGoldAttns tensor3 tokens "tensor3 list" "tensor3 list"

definition Decoder_forward ::
  "Config \<Rightarrow> obj \<Rightarrow> store \<Rightarrow> nat \<Rightarrow> tokens \<Rightarrow> tensor3 \<Rightarrow> int list \<Rightarrow> bool
     \<Rightarrow> error + (forward_result \<times> nat)" where
  "Decoder_forward cfg self st resumes padded_input encoder_padded_outputs encoder_input_lengths return_attns =
     and_then (preprocess cfg self padded_input) (\<lambda>(ys_in_pad, ys_out_pad).
     and_then (getattr self ''tgt_word_emb'') (\<lambda>emb.
     and_then (call_embedding st emb ys_in_pad) (\<lambda>e.
     and_then (get_float self ''x_logit_scale'') (\<lambda>scale.
     and_then (getattr self ''pos_emb'') (\<lambda>pos.
     and_then (call_pos pos ys_in_pad) (\<lambda>p.
     and_then (add_pos (tensor_scale scale e) p) (\<lambda>ys_in_fuse_embed.
     and_then (getattr self ''dropout'') (\<lambda>drop.
     and_then (call_dropout drop ys_in_fuse_embed) (\<lambda>dec_output.
     and_then (get_int self ''eos_id'') (\<lambda>eos.
     let non_pad_mask = get_non_pad_mask ys_in_pad eos;
         dec_enc_attn_mask =
           get_attn_pad_mask encoder_padded_outputs encoder_input_lengths (size1 ys_in_pad);
         slf_attn_mask = slf_attn_mask_of ys_in_pad eos
     in
     and_then (get_layers self ''layer_stack'') (\<lambda>layers.
     and_then (run_layers layers resumes dec_output encoder_padded_outputs (Some non_pad_mask)
                 (Some slf_attn_mask) (Some dec_enc_attn_mask) return_attns [] [])
       (\<lambda>((dec_output, dec_slf_attn_list, dec_enc_attn_list), resumes).
     and_then (getattr self ''tgt_word_prj'') (\<lambda>prj.
     and_then (call_linear st prj dec_output) (\<lambda>seq_logit.
       Inr (if return_attns
            then PredGoldAttns seq_logit ys_out_pad dec_slf_attn_list dec_enc_attn_list
            else PredGold seq_logit ys_out_pad, resumes)))))))))))))))"

subsection \<open>Decoder.recognize\_beam\<close>

definition beam :: nat where "beam = 5"
definition nbest :: nat where "nbest = 1"
definition maxlen :: nat where "maxlen = 100"

text \<open>A hypothesis; \<open>yseq\<close> is the only row of its 1 x T tensor.\<close>

record hyp =
  score :: real
  yseq :: "int list"

text \<open>\<open>F.log_softmax\<close> and \<open>torch.topk\<close> of the framework, on one row.\<close>

definition log_softmax :: "vec \<Rightarrow> vec" where
  "log_softmax xs = map (\<lambda>x. x - ln (sum_list (map exp xs))) xs"

definition topk :: "vec \<Rightarrow> nat \<Rightarrow> error + (real \<times> nat) list" where
  "topk xs k =
     (if length xs < k then Inl RuntimeError
      else Inr (take k (sort_key (\<lambda>(v, i). - v) (zip xs [0..<length xs]))))"

definition last_step :: "tensor3 \<Rightarrow> error + matrix" where
  "last_step x = sequence_err (map (\<lambda>rows. if rows = [] then Inl IndexError else Inr (last rows)) x)"

definition call_linear_rows :: "store \<Rightarrow> attr \<Rightarrow> matrix \<Rightarrow> error + matrix" where
  "call_linear_rows st m x =
     (case m of Linear _ \<Rightarrow> and_then (module_weight st m) (\<lambda>w. sequence_err (map (linear_vec w) x))
              | _ \<Rightarrow> Inl TypeError)"

text \<open>
  Whatever \<open>self.positional_encoding\<close> holds is called on \<open>ys\<close>; the operands of the sum
  are evaluated from left to right, after the callee \<open>self.dropout\<close>.
\<close>

definition extend_hyp ::
  "obj \<Rightarrow> store \<Rightarrow> tensor3 \<Rightarrow> hyp \<Rightarrow> hyp list \<times> nat \<Rightarrow> error + (hyp list \<times> nat)" where
  "extend_hyp self st encoder_outputs h acc =
     (case acc of (hyps_best_kept, resumes) \<Rightarrow>
      let ys = [yseq h];
          non_pad_mask = map (map (\<lambda>_. 1)) ys;
          slf_attn_mask = get_subsequent_mask ys
      in
      and_then (getattr self ''dropout'') (\<lambda>drop.
      and_then (getattr self ''tgt_word_emb'') (\<lambda>emb.
      and_then (call_embedding st emb ys) (\<lambda>e.
      and_then (get_float self ''x_logit_scale'') (\<lambda>scale.
      and_then (getattr self ''positional_encoding'') (\<lambda>pos.
      and_then (call_pos pos ys) (\<lambda>p.
      and_then (add_pos (tensor_scale scale e) p) (\<lambda>x.
      and_then (call_dropout drop x) (\<lambda>dec_output.
      and_then (get_layers self ''layer_stack'') (\<lambda>layers.
      and_then (run_layers layers resumes dec_output encoder_outputs (Some non_pad_mask)
                  (Some slf_attn_mask) None False [] [])
        (\<lambda>((dec_output, _, _), resumes).
      and_then (getattr self ''tgt_word_prj'') (\<lambda>prj.
      and_then (last_step dec_output) (\<lambda>final.
      and_then (call_linear_rows st prj final) (\<lambda>seq_logit.
      let local_scores = map log_softmax seq_logit in
      and_then (sequence_err (map (\<lambda>row. topk row beam) local_scores)) (\<lambda>local_best.
      case local_best of
        [] \<Rightarrow> Inl IndexError
      | best0 # _ \<Rightarrow>
          let new_hyps = map (\<lambda>(v, i). \<lparr>score = score h + v, yseq = yseq h @ [int i]\<rparr>) best0
          in Inr (take beam (sort_key (\<lambda>x. - score x) (hyps_best_kept @ new_hyps)),
                  resumes))))))))))))))))"

text \<open>The split of the hypotheses of a step into ended and remaining ones.\<close>

definition split_ended ::
  "obj \<Rightarrow> hyp \<Rightarrow> hyp list \<times> hyp list \<Rightarrow> error + (hyp list \<times> hyp list)" where
  "split_ended self h acc =
     (case acc of (remained_hyps, ended_hyps) \<Rightarrow>
      and_then (get_int self ''eos_id'') (\<lambda>eos.
        if yseq h = [] then Inl IndexError
        else if last (yseq h) = eos then Inr (remained_hyps, ended_hyps @ [h])
        else Inr (remained_hyps @ [h], ended_hyps)))"

definition append_eos :: "obj \<Rightarrow> hyp \<Rightarrow> hyp list \<Rightarrow> error + hyp list" where
  "append_eos self h acc =
     and_then (get_int self ''eos_id'') (\<lambda>eos. Inr (acc @ [h\<lparr>yseq := yseq h @ [eos]\<rparr>]))"

definition beam_step ::
  "obj \<Rightarrow> store \<Rightarrow> tensor3 \<Rightarrow> nat \<Rightarrow> hyp list \<times> hyp list \<times> nat
     \<Rightarrow> error + (hyp list \<times> hyp list \<times> nat)" where
  "beam_step self st encoder_outputs i s =
     (case s of (hyps, ended_hyps, resumes) \<Rightarrow>
      and_then (fold_err (extend_hyp self st encoder_outputs) hyps ([], resumes))
        (\<lambda>(hyps, resumes).
      and_then (if i = maxlen - 1 then fold_err (append_eos self) hyps [] else Inr hyps) (\<lambda>hyps.
      and_then (fold_err (split_ended self) hyps ([], ended_hyps)) (\<lambda>(remained_hyps, ended_hyps).
        Inr (remained_hyps, ended_hyps, resumes)))))"

text \<open>
  The result is the n-best list and what is left of the debugger environment;
  \<open>char_list\<close> is an argument the function never reads.
\<close>

definition recognize_beam ::
  "obj \<Rightarrow> store \<Rightarrow> nat \<Rightarrow> matrix \<Rightarrow> string list \<Rightarrow> error + (hyp list \<times> nat)" where
  "recognize_beam self st resumes encoder_outputs char_list =
     (let encoder_outputs = [encoder_outputs] in
      and_then (get_int self ''sos_id'') (\<lambda>sos.
      let ys = [sos];
          h = \<lparr>score = 0, yseq = ys\<rparr>;
          hyps = [h];
          ended_hyps = []
      in
      and_then (fold_err (beam_step self st encoder_outputs) [0..<maxlen] (hyps, ended_hyps, resumes))
        (\<lambda>(hyps, ended_hyps, resumes).
         Inr (take (min (length ended_hyps) nbest) (sort_key (\<lambda>x. - score x) ended_hyps),
              resumes))))"

subsection \<open>Running a method of a freshly constructed decoder\<close>

definition with_decoder :: "framework \<Rightarrow> Decoder_args \<Rightarrow> (obj \<Rightarrow> store \<Rightarrow> error + 'a) \<Rightarrow> error + 'a" where
  "with_decoder fw a f = and_then (Decoder_init fw a) (\<lambda>(self, st). f self st)"

text \<open>
  A weight with every entry multiplied by a factor, to state where the factor
  \<open>x_logit_scale\<close> acts.
\<close>

definition scale_matrix :: "real \<Rightarrow> matrix \<Rightarrow> matrix" where
  "scale_matrix s w = map (map (\<lambda>v. v * s)) w"

subsection \<open>Example decoders\<close>

text \<open>
  A framework in evaluation mode (dropout is the identity) whose two initialisers fill
  in the unit vectors, with the sinusoidal positional encoding for four features, and
  attention and feed-forward modules that hand their first argument on; a decoder over a
  vocabulary of three ids; one encoder frame.
\<close>

definition ex_framework :: framework where
  "ex_framework =
     \<lparr>normal_init = (\<lambda>i j. if i = j then 1 else 0),
      xavier_normal = (\<lambda>i j. if i = j then 1 else 0),
      Dropout = (\<lambda>p x. x),
      PositionalEncoding =
        (\<lambda>d n len. map (\<lambda>pos. [sin (real pos), cos (real pos), sin (real pos / 100), cos (real pos / 100)])
                       [0..<len]),
      MultiHeadAttention = (\<lambda>k nh dm dk dv p q key v m. (q, [])),
      PositionwiseFeedForward = (\<lambda>k dm di p x. x)\<rparr>"

definition ex_args :: "bool \<Rightarrow> nat \<Rightarrow> Decoder_args" where
  "ex_args sharing layers =
     \<lparr>sos_id = 0, eos_id = 1, n_tgt_vocab = 3, d_word_vec = 4, n_layers = layers, n_head = 1,
      d_k = 4, d_v = 4, d_model = 4, d_inner = 8, dropout = 1 / 10,
      tgt_emb_prj_weight_sharing = sharing, pe_maxlen = 10\<rparr>"

definition ex_cfg :: Config where
  "ex_cfg = \<lparr>IGNORE_ID = - 1\<rparr>"

definition ex_enc :: tensor3 where
  "ex_enc = [[[0, 0, 0, 0]]]"

text \<open>
  The same framework with an attention module that hands back, as its attention
  weights, the mask it was called with (1 for a blocked pair).
\<close>

definition ex_probe_framework :: framework where
  "ex_probe_framework =
     ex_framework
       \<lparr>MultiHeadAttention :=
          (\<lambda>k nh dm dk dv p q key v m.
             (q, case m of None \<Rightarrow> [] | Some blocked \<Rightarrow> map (map (map of_bool)) blocked))\<rparr>"

section \<open>Properties of data\_process.py\<close>

lemma trunc_take:
  "0 \<le> k \<Longrightarrow> (if int (length xs) > k then slice_to xs k else xs) = take (nat k) xs"
  by (simp add: slice_to_def)

lemma convert_feature_general:
  assumes c: "smp ''content'' = Some c" and t: "smp ''title'' = Some t"
    and k: "0 \<le> title_max_len self"
    and tt: "tt = take (nat (title_max_len self)) (tokenize (ds_tokenizer self) (replace_space t))"
    and fit: "int (length tt) + 3 \<le> max_len self"
    and ct: "ct = take (nat (max_len self - int (length tt) - 3)) (tokenize (ds_tokenizer self) c)"
  shows "convert_feature self smp =
     Inr ([cls_token_id (ds_tokenizer self)] @ map (convert_tokens_to_ids (ds_tokenizer self)) ct
            @ [sep_token_id (ds_tokenizer self)] @ map (convert_tokens_to_ids (ds_tokenizer self)) tt
            @ [sep_token_id (ds_tokenizer self)],
          replicate (length ct + 2) (content_id self) @ replicate (length tt + 1) (title_id self))"
proof -
  have tt': "(if int (length (tokenize (ds_tokenizer self) (replace_space t))) > title_max_len self
       then slice_to (tokenize (ds_tokenizer self) (replace_space t)) (title_max_len self)
       else tokenize (ds_tokenizer self) (replace_space t)) = tt"
    unfolding tt using k by (rule trunc_take)
  have ct': "(if int (length (tokenize (ds_tokenizer self) c)) > max_len self - int (length tt) - 3
       then slice_to (tokenize (ds_tokenizer self) c) (max_len self - int (length tt) - 3)
       else tokenize (ds_tokenizer self) c) = ct"
    unfolding ct using fit by (intro trunc_take) simp
  have len: "int (length ct) \<le> max_len self - int (length tt) - 3"
    unfolding ct using fit by simp
  have rep: "content_id self # replicate (length ct) (content_id self)
               @ content_id self # replicate (length tt) (title_id self) @ [title_id self]
     = replicate (length ct + 2) (content_id self) @ replicate (length tt + 1) (title_id self)"
    by (simp add: replicate_append_same)
  show ?thesis
    unfolding convert_feature_def c t option.case Let_def tt' ct'
    using len rep by simp
qed

text \<open>
  C2. A sample whose content tokenizes to 10 tokens and whose title tokenizes to 3, with
  \<open>max_len = 20\<close> and \<open>title_max_len\<close> at least 3, is converted, without truncation, to
  16 input ids (CLS, the 10 content ids, SEP, the 3 title ids, SEP) and 16 token type
  ids: 12 content segment ids (CLS, content, first SEP), then 4 title segment ids (title,
  final SEP). In general, for a maximum title length that is not negative, the title
  tokens are cut to the first \<open>title_max_len\<close> first, and the content tokens are then cut
  to the first \<open>max_len - len(title) - 3\<close>; the conversion returns whenever that number
  is not negative.
\<close>

theorem convert_feature_layout:
  "(smp ''content'' = Some c \<and> smp ''title'' = Some t \<and>
    length (tokenize (ds_tokenizer self) c) = 10 \<and>
    length (tokenize (ds_tokenizer self) (replace_space t)) = 3 \<and>
    max_len self = 20 \<and> 3 \<le> title_max_len self
    \<longrightarrow> (\<exists>ids tts. convert_feature self smp = Inr (ids, tts) \<and>
          length ids = 16 \<and> length tts = length ids \<and>
          ids = [cls_token_id (ds_tokenizer self)]
                @ map (convert_tokens_to_ids (ds_tokenizer self)) (tokenize (ds_tokenizer self) c)
                @ [sep_token_id (ds_tokenizer self)]
                @ map (convert_tokens_to_ids (ds_tokenizer self))
                      (tokenize (ds_tokenizer self) (replace_space t))
                @ [sep_token_id (ds_tokenizer self)] \<and>
          tts = replicate 12 (content_id self) @ replicate 4 (title_id self)))
   \<and>
   (smp ''content'' = Some c \<and> smp ''title'' = Some t \<and> 0 \<le> title_max_len self \<and>
    tt = take (nat (title_max_len self)) (tokenize (ds_tokenizer self) (replace_space t)) \<and>
    int (length tt) + 3 \<le> max_len self \<and>
    ct = take (nat (max_len self - int (length tt) - 3)) (tokenize (ds_tokenizer self) c)
    \<longrightarrow> convert_feature self smp =
         Inr ([cls_token_id (ds_tokenizer self)]
                @ map (convert_tokens_to_ids (ds_tokenizer self)) ct
                @ [sep_token_id (ds_tokenizer self)]
                @ map (convert_tokens_to_ids (ds_tokenizer self)) tt
                @ [sep_token_id (ds_tokenizer self)],
              replicate (length ct + 2) (content_id self) @ replicate (length tt + 1) (title_id self)))"
proof (intro conjI impI; elim conjE)
  assume c: "smp ''content'' = Some c" and t: "smp ''title'' = Some t"
    and lc: "length (tokenize (ds_tokenizer self) c) = 10"
    and lt: "length (tokenize (ds_tokenizer self) (replace_space t)) = 3"
    and mx: "max_len self = 20" and tmx: "3 \<le> title_max_len self"
  have "convert_feature self smp =
     Inr ([cls_token_id (ds_tokenizer self)]
            @ map (convert_tokens_to_ids (ds_tokenizer self)) (tokenize (ds_tokenizer self) c)
            @ [sep_token_id (ds_tokenizer self)]
            @ map (convert_tokens_to_ids (ds_tokenizer self))
                  (tokenize (ds_tokenizer self) (replace_space t))
            @ [sep_token_id (ds_tokenizer self)],
          replicate (length (tokenize (ds_tokenizer self) c) + 2) (content_id self)
            @ replicate (length (tokenize (ds_tokenizer self) (replace_space t)) + 1) (title_id self))"
    using tmx lt lc mx by (intro convert_feature_general [OF c t]) simp_all
  then show "\<exists>ids tts. convert_feature self smp = Inr (ids, tts) \<and>
          length ids = 16 \<and> length tts = length ids \<and>
          ids = [cls_token_id (ds_tokenizer self)]
                @ map (convert_tokens_to_ids (ds_tokenizer self)) (tokenize (ds_tokenizer self) c)
                @ [sep_token_id (ds_tokenizer self)]
                @ map (convert_tokens_to_ids (ds_tokenizer self))
                      (tokenize (ds_tokenizer self) (replace_space t))
                @ [sep_token_id (ds_tokenizer self)] \<and>
          tts = replicate 12 (content_id self) @ replicate 4 (title_id self)"
    using lc lt by simp
next
  assume "smp ''content'' = Some c" "smp ''title'' = Some t" "0 \<le> title_max_len self"
    "tt = take (nat (title_max_len self)) (tokenize (ds_tokenizer self) (replace_space t))"
    "int (length tt) + 3 \<le> max_len self"
    "ct = take (nat (max_len self - int (length tt) - 3)) (tokenize (ds_tokenizer self) c)"
  then show "convert_feature self smp =
         Inr ([cls_token_id (ds_tokenizer self)]
                @ map (convert_tokens_to_ids (ds_tokenizer self)) ct
                @ [sep_token_id (ds_tokenizer self)]
                @ map (convert_tokens_to_ids (ds_tokenizer self)) tt
                @ [sep_token_id (ds_tokenizer self)],
              replicate (length ct + 2) (content_id self) @ replicate (length tt + 1) (title_id self))"
    by (rule convert_feature_general)
qed


lemma convert_feature_returns:
  "convert_feature self smp = Inr (ids, tts) \<Longrightarrow> length ids = length tts \<and> int (length ids) \<le> max_len self"
  unfolding convert_feature_def Let_def
  by (auto split: option.splits if_splits)


lemma convert_all_invariant:
  "convert_all self ss acc = Inr fs \<Longrightarrow>
   \<forall>f\<in>set acc. feature_within (max_len self) f \<Longrightarrow>
   \<forall>f\<in>set fs. feature_within (max_len self) f"
proof (induction ss arbitrary: acc)
  case Nil
  then show ?case by simp
next
  case (Cons s ss)
  from Cons.prems(1) obtain ids tts where cf: "convert_feature self s = Inr (ids, tts)"
    and rest: "convert_all self ss (acc @ [\<lparr>input_ids = ids, token_type_ids = tts\<rparr>]) = Inr fs"
    by (auto split: sum.splits)
  from convert_feature_returns [OF cf]
  have "feature_within (max_len self) \<lparr>input_ids = ids, token_type_ids = tts\<rparr>"
    by (simp add: feature_within_def)
  with Cons.prems(2)
  have "\<forall>f\<in>set (acc @ [\<lparr>input_ids = ids, token_type_ids = tts\<rparr>]). feature_within (max_len self) f"
    by simp
  with Cons.IH [OF rest] show ?case .
qed

text \<open>
  C7. Whenever \<open>convert_feature\<close> returns, the input ids and the token type ids it
  returns have the same length, and that length is at most \<open>max_len\<close>; every feature
  record that \<open>load_data\<close> produces satisfies the same invariant.
\<close>

theorem feature_invariant:
  "(convert_feature self smp = Inr (ids, tts) \<longrightarrow>
      length ids = length tts \<and> int (length ids) \<le> max_len self) \<and>
   (load_data self path_file w = Inr (fs, w') \<longrightarrow>
      (\<forall>f\<in>set fs. feature_within (max_len self) f))"
proof (intro conjI impI)
  assume "convert_feature self smp = Inr (ids, tts)"
  then show "length ids = length tts" "int (length ids) \<le> max_len self"
    using convert_feature_returns by blast+
next
  assume "load_data self path_file w = Inr (fs, w')"
  then obtain data where "convert_all self data [] = Inr fs"
    unfolding load_data_def by (auto split: option.splits file_content.splits sum.splits)
  from convert_all_invariant [OF this]
  show "\<forall>f\<in>set fs. feature_within (max_len self) f"
    by simp
qed

lemma fold_max_ge: "(a::nat) \<le> fold max xs a \<and> (\<forall>x\<in>set xs. x \<le> fold max xs a)"
proof (induction xs arbitrary: a)
  case Nil
  show ?case by simp
next
  case (Cons y ys)
  have "max y a \<le> fold max ys (max y a)" and "\<forall>x\<in>set ys. x \<le> fold max ys (max y a)"
    using Cons.IH [of "max y a"] by simp_all
  then show ?case by auto
qed

lemma fold_max_mem: "fold max xs (a::nat) \<in> insert a (set xs)"
  by (induction xs arbitrary: a) (auto simp: max_def)

lemma fold_max_attained: "xs \<noteq> [] \<Longrightarrow> fold max xs (0::nat) \<in> set xs"
proof -
  assume ne: "xs \<noteq> []"
  show ?thesis
  proof (cases "fold max xs 0 = 0")
    case True
    with fold_max_ge [of 0 xs] have "\<forall>x\<in>set xs. x = 0" by simp
    with ne True show ?thesis by (cases xs) auto
  next
    case False
    with fold_max_mem [of xs 0] show ?thesis by simp
  qed
qed

text \<open>
  C8. \<open>collate_func\<close> of the empty batch returns the empty dictionary and raises
  nothing. For a batch that is not empty it returns the two tensors; each row of
  \<open>input_ids\<close> is the record's input ids followed by zeros up to the longest input id
  sequence of the batch, and each row of \<open>token_type_ids\<close> is the record's token type
  ids followed by zeros up to the longest token type sequence of the batch.
\<close>

theorem collate_func_pads:
  "collate_func [] = Inr Map.empty \<and>
   (batch \<noteq> [] \<longrightarrow>
     (\<exists>m n. collate_func batch =
          Inr [''input_ids'' \<mapsto> map (\<lambda>f. input_ids f @ replicate (m - length (input_ids f)) 0) batch,
               ''token_type_ids'' \<mapsto> map (\<lambda>f. token_type_ids f @ replicate (n - length (token_type_ids f)) 0) batch] \<and>
        m \<in> set (map (length \<circ> input_ids) batch) \<and> (\<forall>f\<in>set batch. length (input_ids f) \<le> m) \<and>
        n \<in> set (map (length \<circ> token_type_ids) batch) \<and> (\<forall>f\<in>set batch. length (token_type_ids f) \<le> n)))"
proof (intro conjI impI)
  show "collate_func [] = Inr Map.empty" by (simp add: collate_func_def)
next
  assume ne: "batch \<noteq> []"
  define m where "m = fold max (map length (map input_ids batch)) 0"
  define n where "n = fold max (map length (map token_type_ids batch)) 0"
  have "collate_func batch =
          Inr [''input_ids'' \<mapsto> map (\<lambda>f. input_ids f @ replicate (m - length (input_ids f)) 0) batch,
               ''token_type_ids'' \<mapsto> map (\<lambda>f. token_type_ids f @ replicate (n - length (token_type_ids f)) 0) batch]"
    using ne by (simp add: collate_func_def pad_sequence_def m_def n_def comp_def)
  moreover have "m \<in> set (map (length \<circ> input_ids) batch)"
    using fold_max_attained [of "map length (map input_ids batch)"] ne by (simp add: m_def)
  moreover have "\<forall>f\<in>set batch. length (input_ids f) \<le> m"
    using fold_max_ge [of 0 "map length (map input_ids batch)"] by (simp add: m_def)
  moreover have "n \<in> set (map (length \<circ> token_type_ids) batch)"
    using fold_max_attained [of "map length (map token_type_ids batch)"] ne by (simp add: n_def)
  moreover have "\<forall>f\<in>set batch. length (token_type_ids f) \<le> n"
    using fold_max_ge [of 0 "map length (map token_type_ids batch)"] by (simp add: n_def)
  ultimately show "\<exists>m n. collate_func batch =
          Inr [''input_ids'' \<mapsto> map (\<lambda>f. input_ids f @ replicate (m - length (input_ids f)) 0) batch,
               ''token_type_ids'' \<mapsto> map (\<lambda>f. token_type_ids f @ replicate (n - length (token_type_ids f)) 0) batch] \<and>
        m \<in> set (map (length \<circ> input_ids) batch) \<and> (\<forall>f\<in>set batch. length (input_ids f) \<le> m) \<and>
        n \<in> set (map (length \<circ> token_type_ids) batch) \<and> (\<forall>f\<in>set batch. length (token_type_ids f) \<le> n)"
    by blast
qed


lemma init_leaves_cache:
  assumes "GPT2NewsTitleDataSet_init tok mx tmx dir name pf False w = Inr (ds, w1)"
  shows "files w1 (cached_feature_file dir name mx) = Some (Pickle (data_set ds)) \<and>
         length (filter is_ReadRaw (log w1)) \<le> length (filter is_ReadRaw (log w)) + 1"
  using assms unfolding GPT2NewsTitleDataSet_init_def Let_def torch_load_def torch_save_def load_data_def
  by (auto simp: is_ReadRaw_def split: if_splits option.splits file_content.splits sum.splits prod.splits)

text \<open>
  C6. When a construction with the rebuild flag off has returned, a second construction
  with the same cache directory, data set name and maximum length and the flag off
  returns too, whatever tokenizer, title length and raw path it is given; it only loads
  the cache file (its one log entry is \<open>LoadCache\<close> of the file keyed by name and
  maximum length), yields the feature data of the first construction, and the two
  constructions together opened the raw corpus at most once.
\<close>

theorem cache_round_trip:
  assumes "GPT2NewsTitleDataSet_init tok mx tmx dir name pf False w = Inr (ds1, w1)"
  shows "\<exists>ds2. GPT2NewsTitleDataSet_init tok' mx tmx' dir name pf' False w1 =
            Inr (ds2, w1\<lparr>log := log w1 @ [LoadCache (cached_feature_file dir name mx)]\<rparr>) \<and>
          data_set ds2 = data_set ds1 \<and>
          length (filter is_ReadRaw (log w1 @ [LoadCache (cached_feature_file dir name mx)]))
            \<le> length (filter is_ReadRaw (log w)) + 1"
proof -
  from init_leaves_cache [OF assms]
  have f: "files w1 (cached_feature_file dir name mx) = Some (Pickle (data_set ds1))"
    and l: "length (filter is_ReadRaw (log w1)) \<le> length (filter is_ReadRaw (log w)) + 1"
    by simp_all
  show ?thesis
    unfolding GPT2NewsTitleDataSet_init_def Let_def torch_load_def
    using f l by (simp add: is_ReadRaw_def)
qed


text \<open>
  Witness for C2: the 10 + 3 token sample under \<open>max_len = 20\<close>, and the same sample
  truncated under \<open>max_len = 8\<close>, \<open>title_max_len = 2\<close>.
\<close>

theorem convert_feature_layout_witness:
  "(ex_sample ''content'' = Some ''abcdefghij'' \<and> ex_sample ''title'' = Some ''xyz'' \<and>
    length (tokenize (ds_tokenizer (ex_dataset 20 5)) ''abcdefghij'') = 10 \<and>
    length (tokenize (ds_tokenizer (ex_dataset 20 5)) (replace_space ''xyz'')) = 3 \<and>
    max_len (ex_dataset 20 5) = 20 \<and> 3 \<le> title_max_len (ex_dataset 20 5)) \<and>
   convert_feature (ex_dataset 20 5) ex_sample =
     Inr ([101, 1001, 1001, 1001, 1001, 1001, 1001, 1001, 1001, 1001, 1001, 102, 1001, 1001, 1001, 102],
          [1, 1, 1, 1, 1, 1, 1, 1, 1, 1, 1, 1, 2, 2, 2, 2]) \<and>
   convert_feature (ex_dataset 8 2) ex_sample =
     Inr ([101, 1001, 1001, 1001, 102, 1001, 1001, 102], [1, 1, 1, 1, 1, 2, 2, 2])"
proof -
  have h1: "ex_sample ''content'' = Some ''abcdefghij'' \<and> ex_sample ''title'' = Some ''xyz'' \<and>
    length (tokenize (ds_tokenizer (ex_dataset 20 5)) ''abcdefghij'') = 10 \<and>
    length (tokenize (ds_tokenizer (ex_dataset 20 5)) (replace_space ''xyz'')) = 3 \<and>
    max_len (ex_dataset 20 5) = 20 \<and> 3 \<le> title_max_len (ex_dataset 20 5)"
    by (simp add: ex_sample_def ex_dataset_def ex_tokenizer_def replace_space_def)
  have h2: "ex_sample ''content'' = Some ''abcdefghij'' \<and> ex_sample ''title'' = Some ''xyz'' \<and>
    0 \<le> title_max_len (ex_dataset 8 2) \<and>
    [''x'', ''y''] = take (nat (title_max_len (ex_dataset 8 2)))
                      (tokenize (ds_tokenizer (ex_dataset 8 2)) (replace_space ''xyz'')) \<and>
    int (length [''x'', ''y'']) + 3 \<le> max_len (ex_dataset 8 2) \<and>
    [''a'', ''b'', ''c''] = take (nat (max_len (ex_dataset 8 2) - int (length [''x'', ''y'']) - 3))
                      (tokenize (ds_tokenizer (ex_dataset 8 2)) ''abcdefghij'')"
    by (simp add: ex_sample_def ex_dataset_def ex_tokenizer_def replace_space_def)
  from convert_feature_layout [THEN conjunct1, rule_format, OF h1]
  have c1: "convert_feature (ex_dataset 20 5) ex_sample =
     Inr ([101, 1001, 1001, 1001, 1001, 1001, 1001, 1001, 1001, 1001, 1001, 102, 1001, 1001, 1001, 102],
          [1, 1, 1, 1, 1, 1, 1, 1, 1, 1, 1, 1, 2, 2, 2, 2])"
    by (auto simp: ex_dataset_def ex_tokenizer_def replace_space_def eval_nat_numeral)
  from convert_feature_layout [THEN conjunct2, rule_format, OF h2]
  have c2: "convert_feature (ex_dataset 8 2) ex_sample =
     Inr ([101, 1001, 1001, 1001, 102, 1001, 1001, 102], [1, 1, 1, 1, 1, 2, 2, 2])"
    by (simp add: ex_dataset_def ex_tokenizer_def eval_nat_numeral)
  from h1 c1 c2 show ?thesis by blast
qed

text \<open>Witness for C7: one converted sample and one loaded corpus.\<close>

theorem feature_invariant_witness:
  "convert_feature (ex_dataset 8 2) ex_sample =
     Inr ([101, 1001, 1001, 1001, 102, 1001, 1001, 102], [1, 1, 1, 1, 1, 2, 2, 2]) \<and>
   length [101, 1001, 1001, 1001, 102, 1001, 1001, 102 :: int] = length [1, 1, 1, 1, 1, 2, 2, 2 :: int] \<and>
   int (length [101, 1001, 1001, 1001, 102, 1001, 1001, 102 :: int]) \<le> max_len (ex_dataset 8 2) \<and>
   load_data (ex_dataset 8 2) (Some ''raw.json'') ex_world =
     Inr ([\<lparr>input_ids = [101, 1001, 1001, 1001, 102, 1001, 1001, 102], token_type_ids = [1, 1, 1, 1, 1, 2, 2, 2]\<rparr>,
           \<lparr>input_ids = [101, 1001, 1001, 102, 1001, 102], token_type_ids = [1, 1, 1, 1, 2, 2]\<rparr>],
          ex_world\<lparr>log := [ReadRaw ''raw.json'']\<rparr>) \<and>
   feature_within (max_len (ex_dataset 8 2))
     \<lparr>input_ids = [101, 1001, 1001, 1001, 102, 1001, 1001, 102], token_type_ids = [1, 1, 1, 1, 1, 2, 2, 2]\<rparr> \<and>
   feature_within (max_len (ex_dataset 8 2))
     \<lparr>input_ids = [101, 1001, 1001, 102, 1001, 102], token_type_ids = [1, 1, 1, 1, 2, 2]\<rparr>"
proof -
  have h1: "convert_feature (ex_dataset 8 2) ex_sample =
     Inr ([101, 1001, 1001, 1001, 102, 1001, 1001, 102], [1, 1, 1, 1, 1, 2, 2, 2])"
    by (simp add: convert_feature_def ex_sample_def ex_dataset_def ex_tokenizer_def replace_space_def slice_to_def)
  have h2: "load_data (ex_dataset 8 2) (Some ''raw.json'') ex_world =
     Inr ([\<lparr>input_ids = [101, 1001, 1001, 1001, 102, 1001, 1001, 102], token_type_ids = [1, 1, 1, 1, 1, 2, 2, 2]\<rparr>,
           \<lparr>input_ids = [101, 1001, 1001, 102, 1001, 102], token_type_ids = [1, 1, 1, 1, 2, 2]\<rparr>],
          ex_world\<lparr>log := [ReadRaw ''raw.json'']\<rparr>)"
    by (simp add: load_data_def ex_world_def convert_feature_def ex_sample_def ex_dataset_def ex_tokenizer_def replace_space_def slice_to_def)
  from feature_invariant [THEN conjunct1, rule_format, OF h1]
       feature_invariant [THEN conjunct2, rule_format, OF h2] h1 h2
  show ?thesis by simp
qed

text \<open>Witness for C8: a batch of a five-token and a three-token record.\<close>

theorem collate_func_pads_witness:
  "ex_batch \<noteq> [] \<and>
   collate_func ex_batch =
     Inr [''input_ids'' \<mapsto> [[101, 7, 102, 8, 102], [101, 102, 102, 0, 0]],
          ''token_type_ids'' \<mapsto> [[1, 1, 1, 2, 2], [1, 1, 2, 0, 0]]]"
proof -
  have ne: "ex_batch \<noteq> []" by (simp add: ex_batch_def)
  from collate_func_pads [THEN conjunct2, rule_format, OF ne]
  obtain m n where
    c: "collate_func ex_batch =
          Inr [''input_ids'' \<mapsto> map (\<lambda>f. input_ids f @ replicate (m - length (input_ids f)) 0) ex_batch,
               ''token_type_ids'' \<mapsto> map (\<lambda>f. token_type_ids f @ replicate (n - length (token_type_ids f)) 0) ex_batch]"
    and m: "m \<in> set (map (length \<circ> input_ids) ex_batch)" "\<forall>f\<in>set ex_batch. length (input_ids f) \<le> m"
    and n: "n \<in> set (map (length \<circ> token_type_ids) ex_batch)" "\<forall>f\<in>set ex_batch. length (token_type_ids f) \<le> n"
    by blast
  from m have "m = 5" by (auto simp: ex_batch_def)
  moreover from n have "n = 5" by (auto simp: ex_batch_def)
  ultimately show ?thesis using c ne by (simp add: ex_batch_def eval_nat_numeral)
qed

text \<open>
  Witness for C6: the first construction builds and saves the cache; the second, given
  no raw path at all, loads it.
\<close>

theorem cache_round_trip_witness:
  "GPT2NewsTitleDataSet_init ex_tokenizer 8 2 ''data'' ''news'' (Some ''raw.json'') False ex_world =
     Inr (ex_dataset 8 2
            \<lparr>data_set := [\<lparr>input_ids = [101, 1001, 1001, 1001, 102, 1001, 1001, 102], token_type_ids = [1, 1, 1, 1, 1, 2, 2, 2]\<rparr>,
                          \<lparr>input_ids = [101, 1001, 1001, 102, 1001, 102], token_type_ids = [1, 1, 1, 1, 2, 2]\<rparr>]\<rparr>,
          ex_world
            \<lparr>files := (files ex_world)(''data/cached_news_8'' \<mapsto>
                 Pickle [\<lparr>input_ids = [101, 1001, 1001, 1001, 102, 1001, 1001, 102], token_type_ids = [1, 1, 1, 1, 1, 2, 2, 2]\<rparr>,
                         \<lparr>input_ids = [101, 1001, 1001, 102, 1001, 102], token_type_ids = [1, 1, 1, 1, 2, 2]\<rparr>]),
             log := [ReadRaw ''raw.json'', SaveCache ''data/cached_news_8'']\<rparr>) \<and>
   (\<exists>ds2. GPT2NewsTitleDataSet_init ex_tokenizer 8 2 ''data'' ''news'' None False
            (ex_world
            \<lparr>files := (files ex_world)(''data/cached_news_8'' \<mapsto>
                 Pickle [\<lparr>input_ids = [101, 1001, 1001, 1001, 102, 1001, 1001, 102], token_type_ids = [1, 1, 1, 1, 1, 2, 2, 2]\<rparr>,
                         \<lparr>input_ids = [101, 1001, 1001, 102, 1001, 102], token_type_ids = [1, 1, 1, 1, 2, 2]\<rparr>]),
             log := [ReadRaw ''raw.json'', SaveCache ''data/cached_news_8'']\<rparr>) =
          Inr (ds2, ex_world
            \<lparr>files := (files ex_world)(''data/cached_news_8'' \<mapsto>
                 Pickle [\<lparr>input_ids = [101, 1001, 1001, 1001, 102, 1001, 1001, 102], token_type_ids = [1, 1, 1, 1, 1, 2, 2, 2]\<rparr>,
                         \<lparr>input_ids = [101, 1001, 1001, 102, 1001, 102], token_type_ids = [1, 1, 1, 1, 2, 2]\<rparr>]),
             log := [ReadRaw ''raw.json'', SaveCache ''data/cached_news_8'', LoadCache ''data/cached_news_8'']\<rparr>) \<and>
          data_set ds2 = [\<lparr>input_ids = [101, 1001, 1001, 1001, 102, 1001, 1001, 102], token_type_ids = [1, 1, 1, 1, 1, 2, 2, 2]\<rparr>,
                          \<lparr>input_ids = [101, 1001, 1001, 102, 1001, 102], token_type_ids = [1, 1, 1, 1, 2, 2]\<rparr>])"
proof -
  have p: "cached_feature_file ''data'' ''news'' 8 = ''data/cached_news_8''"
    by code_simp
  have h: "GPT2NewsTitleDataSet_init ex_tokenizer 8 2 ''data'' ''news'' (Some ''raw.json'') False ex_world =
     Inr (ex_dataset 8 2
            \<lparr>data_set := [\<lparr>input_ids = [101, 1001, 1001, 1001, 102, 1001, 1001, 102], token_type_ids = [1, 1, 1, 1, 1, 2, 2, 2]\<rparr>,
                          \<lparr>input_ids = [101, 1001, 1001, 102, 1001, 102], token_type_ids = [1, 1, 1, 1, 2, 2]\<rparr>]\<rparr>,
          ex_world
            \<lparr>files := (files ex_world)(''data/cached_news_8'' \<mapsto>
                 Pickle [\<lparr>input_ids = [101, 1001, 1001, 1001, 102, 1001, 1001, 102], token_type_ids = [1, 1, 1, 1, 1, 2, 2, 2]\<rparr>,
                         \<lparr>input_ids = [101, 1001, 1001, 102, 1001, 102], token_type_ids = [1, 1, 1, 1, 2, 2]\<rparr>]),
             log := [ReadRaw ''raw.json'', SaveCache ''data/cached_news_8'']\<rparr>)"
    unfolding GPT2NewsTitleDataSet_init_def p
    by (simp add: load_data_def torch_save_def ex_world_def convert_feature_def ex_sample_def ex_dataset_def ex_tokenizer_def replace_space_def slice_to_def)
  from cache_round_trip [OF h, of ex_tokenizer 2 None] h
  show ?thesis unfolding p by (auto simp: ex_dataset_def)
qed

section \<open>Properties of decoder.py\<close>

lemma and_then_Inl [simp]: "and_then (Inl e) f = Inl e"
  by (simp add: and_then_def)

lemma and_then_Inr [simp]: "and_then (Inr x) f = f x"
  by (simp add: and_then_def)

lemma Decoder_init_attrs:
  assumes "Decoder_init fw a = Inr (self, st)"
  shows "self ''sos_id'' = Some (IntV (sos_id a))"
    and "self ''eos_id'' = Some (IntV (eos_id a))"
    and "self ''tgt_word_emb'' = Some (Embedding 0)"
    and "self ''pos_emb'' = Some (PosEnc (PositionalEncoding fw (d_model a) (pe_maxlen a)))"
    and "self ''dropout'' = Some (DropoutM (Dropout fw (dropout a)))"
    and "self ''layer_stack'' = Some (ModuleList
               (map (\<lambda>k. DecoderLayer_init fw k (d_model a) (d_inner a) (n_head a) (d_k a) (d_v a)
                            (dropout a)) [0..<n_layers a]))"
    and "self ''tgt_word_prj'' = Some (Linear (if tgt_emb_prj_weight_sharing a then 0 else 1))"
    and "self ''x_logit_scale'' =
           Some (FloatV (if tgt_emb_prj_weight_sharing a then real (d_model a) powr (- 1 / 2) else 1))"
    and "self ''positional_encoding'' = None"
    and "st 0 = Some (new_weight (normal_init fw) (n_tgt_vocab a) (d_word_vec a))"
    and "st 1 = Some (new_weight (xavier_normal fw) (n_tgt_vocab a) (d_model a))"
  using assms unfolding Decoder_init_def Let_def getattr_def
  by (auto split: if_splits)

lemma mask_or: "gt0 (mask_add a b) = map2 (map2 (map2 (\<or>))) a b"
  unfolding gt0_def mask_add_def by (simp add: case_prod_unfold)

lemma forward_unfolded:
  assumes init: "Decoder_init fw a = Inr (self, st)"
  shows "Decoder_forward cfg self st r pin enc lens ra =
     and_then (preprocess cfg self pin) (\<lambda>(ys_in_pad, ys_out_pad).
     and_then (embedding (new_weight (normal_init fw) (n_tgt_vocab a) (d_word_vec a)) ys_in_pad) (\<lambda>e.
     and_then (add_pos
                 (tensor_scale (if tgt_emb_prj_weight_sharing a then real (d_model a) powr (- 1 / 2) else 1) e)
                 (PositionalEncoding fw (d_model a) (pe_maxlen a) (size1 ys_in_pad))) (\<lambda>x.
     and_then (run_layers
                 (map (\<lambda>k. DecoderLayer_init fw k (d_model a) (d_inner a) (n_head a) (d_k a) (d_v a)
                              (dropout a)) [0..<n_layers a])
                 r (Dropout fw (dropout a) x) enc
                 (Some (get_non_pad_mask ys_in_pad (eos_id a)))
                 (Some (map2 (map2 (map2 (\<or>)))
                          (get_attn_key_pad_mask ys_in_pad ys_in_pad (eos_id a))
                          (get_subsequent_mask ys_in_pad)))
                 (Some (get_attn_pad_mask enc lens (size1 ys_in_pad))) ra [] [])
       (\<lambda>((dec_output, dec_slf_attn_list, dec_enc_attn_list), resumes).
     and_then (linear (if tgt_emb_prj_weight_sharing a
                       then new_weight (normal_init fw) (n_tgt_vocab a) (d_word_vec a)
                       else new_weight (xavier_normal fw) (n_tgt_vocab a) (d_model a)) dec_output)
       (\<lambda>seq_logit.
          Inr (if ra then PredGoldAttns seq_logit ys_out_pad dec_slf_attn_list dec_enc_attn_list
               else PredGold seq_logit ys_out_pad, resumes))))))"
proof -
  note at = Decoder_init_attrs [OF init]
  have st1: "st (Suc 0) = Some (new_weight (xavier_normal fw) (n_tgt_vocab a) (d_model a))"
    using at(11) by simp
  show ?thesis
  proof (cases "preprocess cfg self pin")
    case (Inl e)
    then show ?thesis by (simp add: Decoder_forward_def)
  next
    case (Inr pr)
    obtain ys_in ys_out where pr: "pr = (ys_in, ys_out)" by (cases pr)
    show ?thesis
      unfolding Decoder_forward_def Inr pr
      by (simp add: getattr_def get_float_def get_int_def get_layers_def call_embedding_def call_linear_def
            call_pos_def call_dropout_def module_weight_def at st1 slf_attn_mask_of_def mask_or)
  qed
qed

text \<open>
  C3. The self-attention mask of \<open>Decoder.forward\<close> is the pointwise logical OR of the
  key-padding mask and the causal mask: adding two masks and comparing the sum with zero
  gives true exactly where at least one of them is true, and it is this mask, built from
  the padded decoder input, that \<open>forward\<close> hands to every layer of the stack as
  \<open>slf_attn_mask\<close>.
\<close>

theorem slf_attn_mask_is_or:
  "gt0 (mask_add m1 m2) = map2 (map2 (map2 (\<or>))) m1 m2 \<and>
   slf_attn_mask_of ys eos =
     map2 (map2 (map2 (\<or>))) (get_attn_key_pad_mask ys ys eos) (get_subsequent_mask ys) \<and>
   (Decoder_init fw a = Inr (self, st) \<longrightarrow>
    Decoder_forward cfg self st r pin enc lens ra =
     and_then (preprocess cfg self pin) (\<lambda>(ys_in_pad, ys_out_pad).
     and_then (embedding (new_weight (normal_init fw) (n_tgt_vocab a) (d_word_vec a)) ys_in_pad) (\<lambda>e.
     and_then (add_pos
                 (tensor_scale (if tgt_emb_prj_weight_sharing a then real (d_model a) powr (- 1 / 2) else 1) e)
                 (PositionalEncoding fw (d_model a) (pe_maxlen a) (size1 ys_in_pad))) (\<lambda>x.
     and_then (run_layers
                 (map (\<lambda>k. DecoderLayer_init fw k (d_model a) (d_inner a) (n_head a) (d_k a) (d_v a)
                              (dropout a)) [0..<n_layers a])
                 r (Dropout fw (dropout a) x) enc
                 (Some (get_non_pad_mask ys_in_pad (eos_id a)))
                 (Some (map2 (map2 (map2 (\<or>)))
                          (get_attn_key_pad_mask ys_in_pad ys_in_pad (eos_id a))
                          (get_subsequent_mask ys_in_pad)))
                 (Some (get_attn_pad_mask enc lens (size1 ys_in_pad))) ra [] [])
       (\<lambda>((dec_output, dec_slf_attn_list, dec_enc_attn_list), resumes).
     and_then (linear (if tgt_emb_prj_weight_sharing a
                       then new_weight (normal_init fw) (n_tgt_vocab a) (d_word_vec a)
                       else new_weight (xavier_normal fw) (n_tgt_vocab a) (d_model a)) dec_output)
       (\<lambda>seq_logit.
          Inr (if ra then PredGoldAttns seq_logit ys_out_pad dec_slf_attn_list dec_enc_attn_list
               else PredGold seq_logit ys_out_pad, resumes)))))))"
  using mask_or forward_unfolded by (simp add: slf_attn_mask_of_def)

lemma fold_max_Suc: "xs \<noteq> [] \<Longrightarrow> fold max (map Suc xs) 0 = Suc (fold max xs 0)"
proof -
  assume ne: "xs \<noteq> []"
  have ge: "\<forall>x\<in>set (map Suc xs). x \<le> Suc (fold max xs 0)"
    using fold_max_ge [of 0 xs] by simp
  have "fold max (map Suc xs) 0 \<in> set (map Suc xs)"
    using ne by (intro fold_max_attained) simp
  with ge have le: "fold max (map Suc xs) 0 \<le> Suc (fold max xs 0)" by blast
  have "Suc (fold max xs 0) \<in> set (map Suc xs)"
    using fold_max_attained [OF ne] by simp
  with fold_max_ge [of 0 "map Suc xs"] have "Suc (fold max xs 0) \<le> fold max (map Suc xs) 0"
    by blast
  with le show ?thesis by simp
qed

lemma preprocess_nonempty:
  assumes sos: "self ''sos_id'' = Some (IntV sos)" and eos: "self ''eos_id'' = Some (IntV eos)"
    and ne: "padded_input \<noteq> []"
    and ys: "ys = map (filter (\<lambda>t. t \<noteq> IGNORE_ID cfg)) padded_input"
    and m: "m = fold max (map length ys) 0"
  shows "preprocess cfg self padded_input =
           Inr (map (\<lambda>y. sos # y @ replicate (m - length y) eos) ys,
                map (\<lambda>y. y @ eos # replicate (m - length y) (IGNORE_ID cfg)) ys)"
proof -
  from ne ys have ne': "ys \<noteq> []" by simp
  then have l: "map length ys \<noteq> []" by simp
  have m_in: "fold max (map (\<lambda>y. Suc (length y)) ys) 0 = Suc m"
    using fold_max_Suc [OF l] by (simp add: m comp_def)
  have a: "pad_list (map (\<lambda>y. [sos] @ y) ys) eos = map (\<lambda>y. sos # y @ replicate (m - length y) eos) ys"
    by (simp add: pad_list_def comp_def m_in)
  have b: "pad_list (map (\<lambda>y. y @ [eos]) ys) (IGNORE_ID cfg)
             = map (\<lambda>y. y @ eos # replicate (m - length y) (IGNORE_ID cfg)) ys"
    by (simp add: pad_list_def comp_def m_in)
  have le: "\<forall>y\<in>set ys. length y \<le> m"
    using fold_max_ge [of 0 "map length ys"] by (simp add: m)
  obtain y0 rest where c: "ys = y0 # rest" using ne' by (cases ys) auto
  have sz: "tensor_size (map (\<lambda>y. sos # y @ replicate (m - length y) eos) ys)
          = tensor_size (map (\<lambda>y. y @ eos # replicate (m - length y) (IGNORE_ID cfg)) ys)"
    by (simp add: tensor_size_def c)
  have cs: "(case ys of [] \<Rightarrow> A | _ # _ \<Rightarrow> B) = B" for A B :: "error + (tokens \<times> tokens)"
    by (simp add: c)
  show ?thesis
    unfolding preprocess_def Let_def ys [symmetric] cs
    by (simp add: get_int_def getattr_def sos eos a b sz)
qed

text \<open>
  C4, as amended. For every batch that is not empty, \<open>Decoder.preprocess\<close> returns;
  with the IGNORE\_ID positions filtered out and \<open>m\<close> the greatest remaining length,
  each decoder input is the start id, the sequence and end ids up to length \<open>m + 1\<close>,
  each gold sequence is the sequence, the end id and IGNORE\_ID up to length \<open>m + 1\<close>,
  and the two tensors have as many rows as the batch.
\<close>

theorem preprocess_pads:
  "Decoder_init fw a = Inr (self, st) \<and> padded_input \<noteq> [] \<and>
   ys = map (filter (\<lambda>t. t \<noteq> IGNORE_ID cfg)) padded_input \<and> m = fold max (map length ys) 0
   \<longrightarrow>
   (\<exists>ys_in_pad ys_out_pad.
      preprocess cfg self padded_input = Inr (ys_in_pad, ys_out_pad) \<and>
      ys_in_pad = map (\<lambda>y. [sos_id a] @ y @ replicate (m - length y) (eos_id a)) ys \<and>
      ys_out_pad = map (\<lambda>y. y @ [eos_id a] @ replicate (m - length y) (IGNORE_ID cfg)) ys \<and>
      m \<in> set (map length ys) \<and> (\<forall>y\<in>set ys. length y \<le> m) \<and>
      length ys_in_pad = length padded_input \<and> length ys_out_pad = length padded_input \<and>
      (\<forall>r\<in>set ys_in_pad. length r = m + 1) \<and> (\<forall>r\<in>set ys_out_pad. length r = m + 1))"
proof (intro impI, elim conjE)
  assume init: "Decoder_init fw a = Inr (self, st)" and ne: "padded_input \<noteq> []"
    and ys: "ys = map (filter (\<lambda>t. t \<noteq> IGNORE_ID cfg)) padded_input"
    and m: "m = fold max (map length ys) 0"
  from ne ys have l: "map length ys \<noteq> []" by simp
  have le: "\<forall>y\<in>set ys. length y \<le> m"
    using fold_max_ge [of 0 "map length ys"] by (simp add: m)
  have mem: "m \<in> set (map length ys)"
    unfolding m using l by (rule fold_max_attained)
  have p: "preprocess cfg self padded_input =
           Inr (map (\<lambda>y. sos_id a # y @ replicate (m - length y) (eos_id a)) ys,
                map (\<lambda>y. y @ eos_id a # replicate (m - length y) (IGNORE_ID cfg)) ys)"
    using Decoder_init_attrs(1,2) [OF init] ne ys m by (rule preprocess_nonempty)
  show "\<exists>ys_in_pad ys_out_pad.
      preprocess cfg self padded_input = Inr (ys_in_pad, ys_out_pad) \<and>
      ys_in_pad = map (\<lambda>y. [sos_id a] @ y @ replicate (m - length y) (eos_id a)) ys \<and>
      ys_out_pad = map (\<lambda>y. y @ [eos_id a] @ replicate (m - length y) (IGNORE_ID cfg)) ys \<and>
      m \<in> set (map length ys) \<and> (\<forall>y\<in>set ys. length y \<le> m) \<and>
      length ys_in_pad = length padded_input \<and> length ys_out_pad = length padded_input \<and>
      (\<forall>r\<in>set ys_in_pad. length r = m + 1) \<and> (\<forall>r\<in>set ys_out_pad. length r = m + 1)"
    using p le mem by (auto simp: ys)
qed

lemma preprocess_empty: "preprocess cfg self [] = Inl IndexError"
  by (simp add: preprocess_def)

lemma and_then_eq_Inr: "and_then r f = Inr y \<longleftrightarrow> (\<exists>x. r = Inr x \<and> f x = Inr y)"
  by (cases r) simp_all

lemma layer_stops: "DecoderLayer_forward l 0 x enc npm sm em = Inl DebuggerPrompt"
  by (simp add: DecoderLayer_forward_def set_trace_def)

lemma layer_consumes:
  "DecoderLayer_forward l r x enc npm sm em = Inr (res, left) \<Longrightarrow> r = Suc left"
  unfolding DecoderLayer_forward_def set_trace_def
  by (cases r) (auto simp: and_then_def split: sum.splits prod.splits)

lemma run_layers_consumes:
  "run_layers ls r x enc npm sm em ra sl el = Inr (res, left) \<Longrightarrow> r = left + length ls"
proof (induction ls arbitrary: r x sl el)
  case Nil
  then show ?case by simp
next
  case (Cons l ls)
  from Cons.prems obtain x' a b r' where
    step: "DecoderLayer_forward l r x enc npm sm em = Inr ((x', a, b), r')"
    and rest: "run_layers ls r' x' enc npm sm em ra
                 (if ra then sl @ [a] else sl) (if ra then el @ [b] else el) = Inr (res, left)"
    by (auto simp: and_then_eq_Inr)
  from layer_consumes [OF step] Cons.IH [OF rest] show ?case by simp
qed

lemma forward_consumes:
  assumes init: "Decoder_init fw a = Inr (self, st)"
    and ret: "Decoder_forward cfg self st r pin enc lens ra = Inr (res, left)"
  shows "r = left + n_layers a"
proof -
  have ls: "get_layers self ''layer_stack'' = Inr
               (map (\<lambda>k. DecoderLayer_init fw k (d_model a) (d_inner a) (n_head a) (d_k a) (d_v a)
                            (dropout a)) [0..<n_layers a])"
    by (simp add: get_layers_def getattr_def Decoder_init_attrs(6) [OF init])
  from ret obtain x enc' npm sm em sl el out where
    "run_layers (map (\<lambda>k. DecoderLayer_init fw k (d_model a) (d_inner a) (n_head a) (d_k a) (d_v a)
                            (dropout a)) [0..<n_layers a]) r x enc' npm sm em ra sl el = Inr (out, left)"
    unfolding Decoder_forward_def Let_def ls
    by (auto simp: and_then_eq_Inr split: if_splits)
  from run_layers_consumes [OF this] show ?thesis by simp
qed

text \<open>
  C9, as amended. \<open>DecoderLayer.forward\<close> stops at the debugger prompt before any
  sub-layer runs, whatever its arguments, and a call that returns was resumed exactly
  once; so a \<open>Decoder.forward\<close> that returns was resumed once for every layer of the
  stack, and with at least one layer none returns without somebody at the debugger.
\<close>

theorem breakpoint_in_every_layer:
  "DecoderLayer_forward l 0 x enc' npm sm em = Inl DebuggerPrompt \<and>
   (DecoderLayer_forward l k x enc' npm sm em = Inr (out, k') \<longrightarrow> k = Suc k') \<and>
   (Decoder_init fw a = Inr (self, st) \<and>
    Decoder_forward cfg self st r pin enc lens ra = Inr (res, left) \<longrightarrow> r = left + n_layers a)"
proof (intro conjI impI)
  show "DecoderLayer_forward l 0 x enc' npm sm em = Inl DebuggerPrompt"
    by (rule layer_stops)
next
  assume "DecoderLayer_forward l k x enc' npm sm em = Inr (out, k')"
  then show "k = Suc k'" by (rule layer_consumes)
next
  assume "Decoder_init fw a = Inr (self, st) \<and>
    Decoder_forward cfg self st r pin enc lens ra = Inr (res, left)"
  then show "r = left + n_layers a" using forward_consumes by blast
qed

lemma first_step_fails:
  assumes init: "Decoder_init fw a = Inr (self, st)"
    and sos: "0 \<le> sos_id a" "sos_id a < int (n_tgt_vocab a)"
  shows "extend_hyp self st enc \<lparr>score = 0, yseq = [sos_id a]\<rparr> ([], r) = Inl AttributeError"
proof -
  have w: "module_weight st (Embedding 0) = Inr (new_weight (normal_init fw) (n_tgt_vocab a) (d_word_vec a))"
    by (simp add: module_weight_def Decoder_init_attrs(10) [OF init])
  have e: "\<exists>v. embedding (new_weight (normal_init fw) (n_tgt_vocab a) (d_word_vec a)) [[sos_id a]] = Inr v"
    using sos by (simp add: embedding_def lookup_row_def new_weight_def)
  then obtain v where v: "embedding (new_weight (normal_init fw) (n_tgt_vocab a) (d_word_vec a)) [[sos_id a]] = Inr v" ..
  show ?thesis
    unfolding extend_hyp_def Let_def
    by (simp add: getattr_def get_float_def call_embedding_def w v Decoder_init_attrs [OF init])
qed

lemma recognize_beam_fails:
  assumes init: "Decoder_init fw a = Inr (self, st)"
    and sos: "0 \<le> sos_id a" "sos_id a < int (n_tgt_vocab a)"
  shows "recognize_beam self st r enc cl = Inl AttributeError"
proof -
  have u: "[0..<maxlen] = 0 # [Suc 0..<maxlen]"
    by (simp add: maxlen_def upt_conv_Cons)
  show ?thesis
    unfolding recognize_beam_def Let_def u
    by (simp add: get_int_def getattr_def Decoder_init_attrs(1) [OF init] beam_step_def
          first_step_fails [OF init sos])
qed






lemma four_powr: "(4::real) powr - (1 / 2) = 1 / 2"
proof -
  have "sqrt 4 = sqrt (2 ^ 2)" by simp
  also have "\<dots> = 2" by (simp only: real_sqrt_abs abs_numeral)
  finally have "(4::real) powr (1 / 2) = 2" by (simp add: powr_half_sqrt)
  then show ?thesis by (simp add: powr_minus inverse_eq_divide)
qed

lemma ex_weight: "new_weight (\<lambda>i j. if i = j then 1 else 0) 3 4 = [[1, 0, 0, 0], [0, 1, 0, 0], [0, 0, 1, 0 :: real]]"
  by (simp add: new_weight_def upt_conv_Cons)

lemma sequence_err_map_Inr:
  "sequence_err (map (\<lambda>x. and_then (g x) (\<lambda>v. Inr (f v))) xs)
     = and_then (sequence_err (map g xs)) (\<lambda>vs. Inr (map f vs))"
proof (induction xs)
  case Nil
  show ?case by simp
next
  case (Cons x xs)
  show ?case
    by (cases "g x"; cases "sequence_err (map g xs)") (simp_all add: Cons.IH)
qed

lemma lookup_row_scaled:
  "lookup_row (scale_matrix s w) i = and_then (lookup_row w i) (\<lambda>v. Inr (map (\<lambda>x. x * s) v))"
  by (simp add: lookup_row_def scale_matrix_def)

lemma embedding_scaled:
  "embedding (scale_matrix s w) ys = and_then (embedding w ys) (\<lambda>e. Inr (tensor_scale s e))"
  unfolding embedding_def lookup_row_scaled sequence_err_map_Inr tensor_scale_def ..

lemma tensor_scale_one: "tensor_scale 1 e = e"
  by (simp add: tensor_scale_def)

lemma forward_shared_as_scaled_table:
  assumes init: "Decoder_init fw a = Inr (self, st)" and sh: "tgt_emb_prj_weight_sharing a"
    and w: "w = new_weight (normal_init fw) (n_tgt_vocab a) (d_word_vec a)"
    and s: "s = real (d_model a) powr (- 1 / 2)"
  shows "Decoder_forward cfg self st r pin enc lens ra =
         Decoder_forward cfg (self(''x_logit_scale'' \<mapsto> FloatV 1, ''tgt_word_prj'' \<mapsto> Linear 1))
           (st(0 \<mapsto> scale_matrix s w, 1 \<mapsto> w)) r pin enc lens ra"
proof -
  note at = Decoder_init_attrs [OF init]
  have p: "preprocess cfg (self(''x_logit_scale'' \<mapsto> FloatV 1, ''tgt_word_prj'' \<mapsto> Linear 1)) pin
             = preprocess cfg self pin"
  proof -
    have "get_int (self(''x_logit_scale'' \<mapsto> FloatV 1, ''tgt_word_prj'' \<mapsto> Linear 1)) ''eos_id''
            = get_int self ''eos_id''"
      and "get_int (self(''x_logit_scale'' \<mapsto> FloatV 1, ''tgt_word_prj'' \<mapsto> Linear 1)) ''sos_id''
            = get_int self ''sos_id''"
      by (simp_all add: get_int_def getattr_def)
    then show ?thesis unfolding preprocess_def by (simp only:)
  qed
  show ?thesis
  proof (cases "preprocess cfg self pin")
    case (Inl e)
    then show ?thesis unfolding Decoder_forward_def p by simp
  next
    case (Inr pr)
    obtain ys_in ys_out where pr: "pr = (ys_in, ys_out)" by (cases pr)
    show ?thesis
    proof (cases "embedding w ys_in")
      case (Inl e)
      then show ?thesis
        unfolding Decoder_forward_def p Inr pr
        by (simp add: getattr_def call_embedding_def module_weight_def at embedding_scaled w [symmetric])
    next
      case emb: (Inr e)
      show ?thesis
        unfolding Decoder_forward_def p Inr pr
        by (simp add: getattr_def get_float_def get_int_def get_layers_def call_embedding_def call_linear_def
              module_weight_def at sh embedding_scaled w [symmetric] emb tensor_scale_one s)
    qed
  qed
qed

lemma Decoder_init_returns:
  "d_model a \<noteq> 0 \<or> \<not> tgt_emb_prj_weight_sharing a \<Longrightarrow> \<exists>self st. Decoder_init fw a = Inr (self, st)"
  by (auto simp: Decoder_init_def Let_def getattr_def)

lemma ex_init: "\<exists>self st. Decoder_init ex_framework (ex_args sh n) = Inr (self, st)"
  by (rule Decoder_init_returns) (simp add: ex_args_def)

lemma set_then_read:
  "and_then (set_weight (Embedding k) m st) (\<lambda>st'. module_weight st' (Linear k)) = Inr m"
  "and_then (set_weight (Linear k) m st) (\<lambda>st'. module_weight st' (Embedding k)) = Inr m"
  by (simp_all add: set_weight_def module_weight_def)

text \<open>
  C1, as amended. With weight sharing the output projection holds the very weight of
  the embedding (an update through either is read through the other) and
  \<open>x_logit_scale\<close> is \<open>d_model ** -0.5\<close>; \<open>forward\<close> multiplies the embedding
  lookups by it before the positional encoding is added and returns the product of the
  layer output with the shared weight as it is, so it computes what the unscaled decoder
  computes whose embedding table is the scaled table and whose projection is the
  unscaled one. Without sharing the two weights are separate, \<open>x_logit_scale\<close> is 1,
  and \<open>forward\<close> is the same computation with no factor anywhere: the embedding
  lookups enter unscaled and the logits are the product with the projection's own weight.
\<close>

theorem weight_sharing:
  "(Decoder_init fw a = Inr (self, st) \<and> tgt_emb_prj_weight_sharing a \<longrightarrow>
      getattr self ''tgt_word_emb'' = Inr (Embedding 0) \<and>
      getattr self ''tgt_word_prj'' = Inr (Linear 0) \<and>
      and_then (set_weight (Embedding 0) m st) (\<lambda>st'. module_weight st' (Linear 0)) = Inr m \<and>
      and_then (set_weight (Linear 0) m st) (\<lambda>st'. module_weight st' (Embedding 0)) = Inr m \<and>
      getattr self ''x_logit_scale'' = Inr (FloatV (real (d_model a) powr (- 1 / 2))) \<and>
      Decoder_forward cfg self st r pin enc lens ra =
        and_then (preprocess cfg self pin) (\<lambda>(ys_in_pad, ys_out_pad).
        and_then (embedding (new_weight (normal_init fw) (n_tgt_vocab a) (d_word_vec a)) ys_in_pad) (\<lambda>e.
        and_then (add_pos (tensor_scale (real (d_model a) powr (- 1 / 2)) e)
                    (PositionalEncoding fw (d_model a) (pe_maxlen a) (size1 ys_in_pad))) (\<lambda>x.
        and_then (run_layers
                    (map (\<lambda>k. DecoderLayer_init fw k (d_model a) (d_inner a) (n_head a) (d_k a) (d_v a)
                                 (dropout a)) [0..<n_layers a])
                    r (Dropout fw (dropout a) x) enc
                    (Some (get_non_pad_mask ys_in_pad (eos_id a)))
                    (Some (slf_attn_mask_of ys_in_pad (eos_id a)))
                    (Some (get_attn_pad_mask enc lens (size1 ys_in_pad))) ra [] [])
          (\<lambda>((dec_output, dec_slf_attn_list, dec_enc_attn_list), resumes).
        and_then (linear (new_weight (normal_init fw) (n_tgt_vocab a) (d_word_vec a)) dec_output)
          (\<lambda>seq_logit.
             Inr (if ra then PredGoldAttns seq_logit ys_out_pad dec_slf_attn_list dec_enc_attn_list
                  else PredGold seq_logit ys_out_pad, resumes)))))) \<and>
      Decoder_forward cfg self st r pin enc lens ra =
        Decoder_forward cfg (self(''x_logit_scale'' \<mapsto> FloatV 1, ''tgt_word_prj'' \<mapsto> Linear 1))
          (st(0 \<mapsto> scale_matrix (real (d_model a) powr (- 1 / 2))
                     (new_weight (normal_init fw) (n_tgt_vocab a) (d_word_vec a)),
              1 \<mapsto> new_weight (normal_init fw) (n_tgt_vocab a) (d_word_vec a)))
          r pin enc lens ra)
   \<and>
   (Decoder_init fw a = Inr (self, st) \<and> \<not> tgt_emb_prj_weight_sharing a \<longrightarrow>
      getattr self ''tgt_word_emb'' = Inr (Embedding 0) \<and>
      getattr self ''tgt_word_prj'' = Inr (Linear 1) \<and>
      and_then (set_weight (Embedding 0) m st) (\<lambda>st'. module_weight st' (Linear 1))
        = module_weight st (Linear 1) \<and>
      getattr self ''x_logit_scale'' = Inr (FloatV 1) \<and>
      Decoder_forward cfg self st r pin enc lens ra =
        and_then (preprocess cfg self pin) (\<lambda>(ys_in_pad, ys_out_pad).
        and_then (embedding (new_weight (normal_init fw) (n_tgt_vocab a) (d_word_vec a)) ys_in_pad) (\<lambda>e.
        and_then (add_pos e (PositionalEncoding fw (d_model a) (pe_maxlen a) (size1 ys_in_pad))) (\<lambda>x.
        and_then (run_layers
                    (map (\<lambda>k. DecoderLayer_init fw k (d_model a) (d_inner a) (n_head a) (d_k a) (d_v a)
                                 (dropout a)) [0..<n_layers a])
                    r (Dropout fw (dropout a) x) enc
                    (Some (get_non_pad_mask ys_in_pad (eos_id a)))
                    (Some (slf_attn_mask_of ys_in_pad (eos_id a)))
                    (Some (get_attn_pad_mask enc lens (size1 ys_in_pad))) ra [] [])
          (\<lambda>((dec_output, dec_slf_attn_list, dec_enc_attn_list), resumes).
        and_then (linear (new_weight (xavier_normal fw) (n_tgt_vocab a) (d_model a)) dec_output)
          (\<lambda>seq_logit.
             Inr (if ra then PredGoldAttns seq_logit ys_out_pad dec_slf_attn_list dec_enc_attn_list
                  else PredGold seq_logit ys_out_pad, resumes)))))))"
proof (intro conjI impI; elim conjE)
  assume init: "Decoder_init fw a = Inr (self, st)" and sh: "tgt_emb_prj_weight_sharing a"
  note at = Decoder_init_attrs [OF init]
  show "getattr self ''tgt_word_emb'' = Inr (Embedding 0)"
    by (simp add: getattr_def at)
  show "getattr self ''tgt_word_prj'' = Inr (Linear 0)"
    by (simp add: getattr_def at sh)
  show "and_then (set_weight (Embedding 0) m st) (\<lambda>st'. module_weight st' (Linear 0)) = Inr m"
    by (rule set_then_read)
  show "and_then (set_weight (Linear 0) m st) (\<lambda>st'. module_weight st' (Embedding 0)) = Inr m"
    by (rule set_then_read)
  show "getattr self ''x_logit_scale'' = Inr (FloatV (real (d_model a) powr (- 1 / 2)))"
    by (simp add: getattr_def at sh)
  show "Decoder_forward cfg self st r pin enc lens ra =
        and_then (preprocess cfg self pin) (\<lambda>(ys_in_pad, ys_out_pad).
        and_then (embedding (new_weight (normal_init fw) (n_tgt_vocab a) (d_word_vec a)) ys_in_pad) (\<lambda>e.
        and_then (add_pos (tensor_scale (real (d_model a) powr (- 1 / 2)) e)
                    (PositionalEncoding fw (d_model a) (pe_maxlen a) (size1 ys_in_pad))) (\<lambda>x.
        and_then (run_layers
                    (map (\<lambda>k. DecoderLayer_init fw k (d_model a) (d_inner a) (n_head a) (d_k a) (d_v a)
                                 (dropout a)) [0..<n_layers a])
                    r (Dropout fw (dropout a) x) enc
                    (Some (get_non_pad_mask ys_in_pad (eos_id a)))
                    (Some (slf_attn_mask_of ys_in_pad (eos_id a)))
                    (Some (get_attn_pad_mask enc lens (size1 ys_in_pad))) ra [] [])
          (\<lambda>((dec_output, dec_slf_attn_list, dec_enc_attn_list), resumes).
        and_then (linear (new_weight (normal_init fw) (n_tgt_vocab a) (d_word_vec a)) dec_output)
          (\<lambda>seq_logit.
             Inr (if ra then PredGoldAttns seq_logit ys_out_pad dec_slf_attn_list dec_enc_attn_list
                  else PredGold seq_logit ys_out_pad, resumes))))))"
    unfolding forward_unfolded [OF init] using sh by (simp add: slf_attn_mask_of_def mask_or)
  show "Decoder_forward cfg self st r pin enc lens ra =
        Decoder_forward cfg (self(''x_logit_scale'' \<mapsto> FloatV 1, ''tgt_word_prj'' \<mapsto> Linear 1))
          (st(0 \<mapsto> scale_matrix (real (d_model a) powr (- 1 / 2))
                     (new_weight (normal_init fw) (n_tgt_vocab a) (d_word_vec a)),
              1 \<mapsto> new_weight (normal_init fw) (n_tgt_vocab a) (d_word_vec a)))
          r pin enc lens ra"
    using init sh by (rule forward_shared_as_scaled_table) simp_all
next
  assume init: "Decoder_init fw a = Inr (self, st)" and sh: "\<not> tgt_emb_prj_weight_sharing a"
  note at = Decoder_init_attrs [OF init]
  show "getattr self ''tgt_word_emb'' = Inr (Embedding 0)"
    by (simp add: getattr_def at)
  show "getattr self ''tgt_word_prj'' = Inr (Linear 1)"
    by (simp add: getattr_def at sh)
  show "and_then (set_weight (Embedding 0) m st) (\<lambda>st'. module_weight st' (Linear 1))
        = module_weight st (Linear 1)"
    by (simp add: set_weight_def module_weight_def)
  show "getattr self ''x_logit_scale'' = Inr (FloatV 1)"
    by (simp add: getattr_def at sh)
  show "Decoder_forward cfg self st r pin enc lens ra =
        and_then (preprocess cfg self pin) (\<lambda>(ys_in_pad, ys_out_pad).
        and_then (embedding (new_weight (normal_init fw) (n_tgt_vocab a) (d_word_vec a)) ys_in_pad) (\<lambda>e.
        and_then (add_pos e (PositionalEncoding fw (d_model a) (pe_maxlen a) (size1 ys_in_pad))) (\<lambda>x.
        and_then (run_layers
                    (map (\<lambda>k. DecoderLayer_init fw k (d_model a) (d_inner a) (n_head a) (d_k a) (d_v a)
                                 (dropout a)) [0..<n_layers a])
                    r (Dropout fw (dropout a) x) enc
                    (Some (get_non_pad_mask ys_in_pad (eos_id a)))
                    (Some (slf_attn_mask_of ys_in_pad (eos_id a)))
                    (Some (get_attn_pad_mask enc lens (size1 ys_in_pad))) ra [] [])
          (\<lambda>((dec_output, dec_slf_attn_list, dec_enc_attn_list), resumes).
        and_then (linear (new_weight (xavier_normal fw) (n_tgt_vocab a) (d_model a)) dec_output)
          (\<lambda>seq_logit.
             Inr (if ra then PredGoldAttns seq_logit ys_out_pad dec_slf_attn_list dec_enc_attn_list
                  else PredGold seq_logit ys_out_pad, resumes))))))"
    unfolding forward_unfolded [OF init] using sh
    by (simp add: slf_attn_mask_of_def mask_or tensor_scale_one)
qed

lemmas ex_eval =
  ex_args_def four_powr ex_weight Decoder_forward_def preprocess_def ex_cfg_def get_int_def getattr_def
  get_float_def get_layers_def pad_list_def tensor_size_def call_embedding_def module_weight_def
  embedding_def lookup_row_def call_pos_def size1_def ex_framework_def upt_conv_Cons tensor_scale_def
  add_pos_def call_dropout_def call_linear_def linear_def linear_vec_def

text \<open>
  Counterexample to C1 as stated: a decoder without layers, one label sequence. The
  logits with sharing are not \<open>d_model ** -0.5\<close> times the logits without sharing
  (same weights): the positional encoding is not scaled.
\<close>

theorem logits_not_scaled_counterexample:
  "with_decoder ex_framework (ex_args True 0)
     (\<lambda>self st. Decoder_forward ex_cfg self st 0 [[2, - 1]] ex_enc [1] False) =
     Inr (PredGold [[[1 / 2, 1, 0], [sin 1, cos 1, 1 / 2 + sin (1 / 100)]]] [[2, 1]], 0) \<and>
   with_decoder ex_framework (ex_args False 0)
     (\<lambda>self st. Decoder_forward ex_cfg self st 0 [[2, - 1]] ex_enc [1] False) =
     Inr (PredGold [[[1, 1, 0], [sin 1, cos 1, 1 + sin (1 / 100)]]] [[2, 1]], 0) \<and>
   [[[1 / 2, 1, 0], [sin 1, cos 1, 1 / 2 + sin (1 / 100)]]] \<noteq>
     tensor_scale (real (d_model (ex_args True 0)) powr (- 1 / 2))
       [[[1, 1, 0], [sin 1, cos 1, 1 + sin (1 / 100)]]]"
proof (intro conjI)
  show "with_decoder ex_framework (ex_args True 0)
     (\<lambda>self st. Decoder_forward ex_cfg self st 0 [[2, - 1]] ex_enc [1] False) =
     Inr (PredGold [[[1 / 2, 1, 0], [sin 1, cos 1, 1 / 2 + sin (1 / 100)]]] [[2, 1]], 0)"
    unfolding with_decoder_def Decoder_init_def by (simp add: ex_eval)
  show "with_decoder ex_framework (ex_args False 0)
     (\<lambda>self st. Decoder_forward ex_cfg self st 0 [[2, - 1]] ex_enc [1] False) =
     Inr (PredGold [[[1, 1, 0], [sin 1, cos 1, 1 + sin (1 / 100)]]] [[2, 1]], 0)"
    unfolding with_decoder_def Decoder_init_def by (simp add: ex_eval)
  show "[[[1 / 2, 1, 0], [sin 1, cos 1, 1 / 2 + sin (1 / 100)]]] \<noteq>
     tensor_scale (real (d_model (ex_args True 0)) powr (- 1 / 2))
       [[[1, 1, 0], [sin 1, cos 1, 1 + sin (1 / 100)]]]"
    by (simp add: tensor_scale_def ex_args_def four_powr)
qed

text \<open>Witness for C1: writing through the embedding, reading through the projection.\<close>

theorem weight_sharing_witness:
  "tgt_emb_prj_weight_sharing (ex_args True 0) \<and> \<not> tgt_emb_prj_weight_sharing (ex_args False 0) \<and>
   with_decoder ex_framework (ex_args True 0)
     (\<lambda>self st. and_then (getattr self ''tgt_word_emb'') (\<lambda>emb.
                 and_then (getattr self ''tgt_word_prj'') (\<lambda>prj.
                 and_then (set_weight emb [[7, 7, 7, 7]] st) (\<lambda>st'. module_weight st' prj)))) =
     Inr [[7, 7, 7, 7]] \<and>
   with_decoder ex_framework (ex_args False 0)
     (\<lambda>self st. and_then (getattr self ''tgt_word_emb'') (\<lambda>emb.
                 and_then (getattr self ''tgt_word_prj'') (\<lambda>prj.
                 and_then (set_weight emb [[7, 7, 7, 7]] st) (\<lambda>st'. module_weight st' prj)))) =
     Inr [[1, 0, 0, 0], [0, 1, 0, 0], [0, 0, 1, 0]] \<and>
   with_decoder ex_framework (ex_args True 0) (\<lambda>self st. getattr self ''x_logit_scale'') = Inr (FloatV (1 / 2)) \<and>
   with_decoder ex_framework (ex_args False 0) (\<lambda>self st. getattr self ''x_logit_scale'') = Inr (FloatV 1)"
proof -
  obtain s1 t1 where i1: "Decoder_init ex_framework (ex_args True 0) = Inr (s1, t1)"
    using ex_init by blast
  obtain s2 t2 where i2: "Decoder_init ex_framework (ex_args False 0) = Inr (s2, t2)"
    using ex_init by blast
  have sh1: "tgt_emb_prj_weight_sharing (ex_args True 0)"
    and sh2: "\<not> tgt_emb_prj_weight_sharing (ex_args False 0)"
    by (simp_all add: ex_args_def)
  note a = weight_sharing [THEN conjunct1, rule_format, OF conjI [OF i1 sh1], of "[[7, 7, 7, 7]]"]
  note b = weight_sharing [THEN conjunct2, rule_format, OF conjI [OF i2 sh2], of "[[7, 7, 7, 7]]"]
  have t2: "module_weight t2 (Linear 1) = Inr [[1, 0, 0, 0], [0, 1, 0, 0], [0, 0, 1, 0]]"
    using Decoder_init_attrs(11) [OF i2]
    by (simp add: module_weight_def ex_args_def ex_framework_def ex_weight)
  have "with_decoder ex_framework (ex_args True 0)
     (\<lambda>self st. and_then (getattr self ''tgt_word_emb'') (\<lambda>emb.
                 and_then (getattr self ''tgt_word_prj'') (\<lambda>prj.
                 and_then (set_weight emb [[7, 7, 7, 7]] st) (\<lambda>st'. module_weight st' prj)))) =
     Inr [[7, 7, 7, 7]]"
    unfolding with_decoder_def i1 using a by simp
  moreover have "with_decoder ex_framework (ex_args False 0)
     (\<lambda>self st. and_then (getattr self ''tgt_word_emb'') (\<lambda>emb.
                 and_then (getattr self ''tgt_word_prj'') (\<lambda>prj.
                 and_then (set_weight emb [[7, 7, 7, 7]] st) (\<lambda>st'. module_weight st' prj)))) =
     Inr [[1, 0, 0, 0], [0, 1, 0, 0], [0, 0, 1, 0]]"
    unfolding with_decoder_def i2 using b t2 by simp
  moreover have "with_decoder ex_framework (ex_args True 0) (\<lambda>self st. getattr self ''x_logit_scale'')
      = Inr (FloatV (1 / 2))"
    unfolding with_decoder_def i1 using a by (simp add: ex_args_def four_powr)
  moreover have "with_decoder ex_framework (ex_args False 0) (\<lambda>self st. getattr self ''x_logit_scale'')
      = Inr (FloatV 1)"
    unfolding with_decoder_def i2 using b by simp
  ultimately show ?thesis using sh1 sh2 by blast
qed

text \<open>Counterexample to C4 as stated: on the empty batch \<open>ys[0]\<close> raises.\<close>

theorem preprocess_empty_batch_counterexample:
  "with_decoder ex_framework (ex_args True 6) (\<lambda>self st. preprocess ex_cfg self []) = Inl IndexError"
proof -
  obtain s t where i: "Decoder_init ex_framework (ex_args True 6) = Inr (s, t)"
    using ex_init by blast
  show ?thesis unfolding with_decoder_def i by (simp add: preprocess_empty)
qed

text \<open>Witness for C4: a batch of a two-label and a one-label sequence.\<close>

theorem preprocess_pads_witness:
  "[[2, 2], [2, - 1]] \<noteq> ([] :: tokens) \<and>
   with_decoder ex_framework (ex_args True 6) (\<lambda>self st. preprocess ex_cfg self [[2, 2], [2, - 1]]) =
     Inr ([[0, 2, 2], [0, 2, 1]], [[2, 2, 1], [2, 1, - 1]])"
proof -
  obtain s t where i: "Decoder_init ex_framework (ex_args True 6) = Inr (s, t)"
    using ex_init by blast
  have h: "Decoder_init ex_framework (ex_args True 6) = Inr (s, t) \<and> [[2, 2], [2, - 1]] \<noteq> ([] :: tokens) \<and>
     [[2, 2], [2]] = map (filter (\<lambda>t. t \<noteq> IGNORE_ID ex_cfg)) [[2, 2], [2, - 1]] \<and>
     2 = fold max (map length [[2, 2], [2 :: int]]) 0"
    using i by (simp add: ex_cfg_def)
  from preprocess_pads [rule_format, OF h]
  have "preprocess ex_cfg s [[2, 2], [2, - 1]] = Inr ([[0, 2, 2], [0, 2, 1]], [[2, 2, 1], [2, 1, - 1]])"
    by (auto simp: ex_args_def ex_cfg_def)
  then show ?thesis unfolding with_decoder_def i by simp
qed

text \<open>
  Counterexample to C9 as stated: a decoder constructed with \<open>n_layers = 0\<close> completes
  a forward pass with nobody at the debugger.
\<close>

theorem forward_without_layers_counterexample:
  "with_decoder ex_framework (ex_args True 0)
     (\<lambda>self st. Decoder_forward ex_cfg self st 0 [[2, - 1]] ex_enc [1] True) =
     Inr (PredGoldAttns [[[1 / 2, 1, 0], [sin 1, cos 1, 1 / 2 + sin (1 / 100)]]] [[2, 1]] [] [], 0)"
  unfolding with_decoder_def Decoder_init_def by (simp add: ex_eval)

text \<open>
  Witness for C9: with two layers, two resumptions let the pass complete and one does not.
\<close>

theorem breakpoint_in_every_layer_witness:
  "with_decoder ex_framework (ex_args True 2)
     (\<lambda>self st. Decoder_forward ex_cfg self st 2 [[2, - 1]] ex_enc [1] False) =
     Inr (PredGold [[[1 / 2, 1, 0], [sin 1, cos 1, 1 / 2 + sin (1 / 100)]]] [[2, 1]], 0) \<and>
   (2 :: nat) = 0 + n_layers (ex_args True 2) \<and>
   with_decoder ex_framework (ex_args True 2)
     (\<lambda>self st. Decoder_forward ex_cfg self st 1 [[2, - 1]] ex_enc [1] False) = Inl DebuggerPrompt"
proof -
  obtain s t where i: "Decoder_init ex_framework (ex_args True 2) = Inr (s, t)"
    using ex_init by blast
  have e: "with_decoder ex_framework (ex_args True 2)
     (\<lambda>self st. Decoder_forward ex_cfg self st 2 [[2, - 1]] ex_enc [1] False) =
     Inr (PredGold [[[1 / 2, 1, 0], [sin 1, cos 1, 1 / 2 + sin (1 / 100)]]] [[2, 1]], 0)"
    unfolding with_decoder_def Decoder_init_def
    by (simp add: ex_eval DecoderLayer_init_def DecoderLayer_forward_def set_trace_def imul_mask_def
          get_non_pad_mask_def)
  have e1: "with_decoder ex_framework (ex_args True 2)
     (\<lambda>self st. Decoder_forward ex_cfg self st 1 [[2, - 1]] ex_enc [1] False) = Inl DebuggerPrompt"
    unfolding with_decoder_def Decoder_init_def
    by (simp add: ex_eval DecoderLayer_init_def DecoderLayer_forward_def set_trace_def imul_mask_def
          get_non_pad_mask_def)
  from e have "Decoder_forward ex_cfg s t 2 [[2, - 1]] ex_enc [1] False =
     Inr (PredGold [[[1 / 2, 1, 0], [sin 1, cos 1, 1 / 2 + sin (1 / 100)]]] [[2, 1]], 0)"
    unfolding with_decoder_def i by simp
  with i have "(2 :: nat) = 0 + n_layers (ex_args True 2)"
    using breakpoint_in_every_layer [THEN conjunct2, THEN conjunct2, rule_format] by blast
  with e e1 show ?thesis by blast
qed



text \<open>
  Witness for C3: one layer that reports the mask it is given. In the second sequence the
  last position is padding, and the pair (1, 1) is blocked by the key-padding mask alone.
\<close>

theorem slf_attn_mask_is_or_witness:
  "with_decoder ex_probe_framework (ex_args False 1)
     (\<lambda>self st. Decoder_forward ex_cfg self st 1 [[2], [- 1]]
                   [[[0, 0, 0, 0]], [[0, 0, 0, 0]]] [1, 1] True) =
   Inr (PredGoldAttns
          [[[1, 1, 0], [sin 1, cos 1, 1 + sin (1 / 100)]], [[1, 1, 0], [0, 0, 0]]]
          [[2, 1], [1, - 1]]
          [[[[0, 1], [0, 0]], [[0, 1], [0, 1]]]]
          [[[[0], [0]], [[0], [0]]]], 0)"
proof -
  have "\<exists>self st. Decoder_init ex_probe_framework (ex_args False 1) = Inr (self, st)"
    by (rule Decoder_init_returns) (simp add: ex_args_def)
  then obtain s t where i: "Decoder_init ex_probe_framework (ex_args False 1) = Inr (s, t)"
    by blast
  note at = Decoder_init_attrs(1,2) [OF i]
  have "Decoder_forward ex_cfg s t 1 [[2], [- 1]] [[[0, 0, 0, 0]], [[0, 0, 0, 0]]] [1, 1] True =
    Inr (PredGoldAttns
          [[[1, 1, 0], [sin 1, cos 1, 1 + sin (1 / 100)]], [[1, 1, 0], [0, 0, 0]]]
          [[2, 1], [1, - 1]]
          [[[[0, 1], [0, 0]], [[0, 1], [0, 1]]]]
          [[[[0], [0]], [[0], [0]]]], 0)"
    unfolding slf_attn_mask_is_or [THEN conjunct2, THEN conjunct2, rule_format, OF i]
    by (simp add: at ex_args_def ex_weight preprocess_def ex_cfg_def get_int_def getattr_def
          pad_list_def tensor_size_def embedding_def lookup_row_def size1_def ex_probe_framework_def
          ex_framework_def upt_conv_Cons tensor_scale_def add_pos_def linear_def linear_vec_def
          DecoderLayer_init_def DecoderLayer_forward_def set_trace_def imul_mask_def
          get_non_pad_mask_def get_attn_key_pad_mask_def get_subsequent_mask_def get_attn_pad_mask_def)
  then show ?thesis unfolding with_decoder_def i by simp
qed

text \<open>
  C5. On the code as it is, decoding ends no hypothesis: with six layers, a thousand
  resumptions of the debugger at hand and two encoder frames, \<open>recognize_beam\<close> raises
  \<open>AttributeError\<close> in the first step of the first hypothesis, before the split into
  ended and remaining hypotheses is reached.
\<close>

theorem recognize_beam_ends_nothing:
  "with_decoder ex_framework (ex_args False 6)
     (\<lambda>self st. recognize_beam self st 1000 [[0, 0, 0, 0], [0, 0, 0, 0]] [''a'', ''b'', ''c''])
     = Inl AttributeError"
proof -
  obtain s t where i: "Decoder_init ex_framework (ex_args False 6) = Inr (s, t)"
    using ex_init by blast
  have "recognize_beam s t 1000 [[0, 0, 0, 0], [0, 0, 0, 0]] [''a'', ''b'', ''c''] = Inl AttributeError"
    using i by (rule recognize_beam_fails) (simp_all add: ex_args_def)
  then show ?thesis unfolding with_decoder_def i by simp
qed

end
